theory Spec2Isabelle
  imports Main "HOL-Library.DAList"
begin

chapter \<open>The log bot: repository, command executor and uptime\<close>

section \<open>Data model (shared/schema.ts)\<close>

text \<open>
  Every table of the schema is a record. Field names carry the table as a prefix
  (\<open>srv_\<close>, \<open>ch_\<close>, \<open>msg_\<close>, \<open>log_\<close>), since the columns \<open>id\<close> and \<open>name\<close> occur in
  several tables. A \<open>timestamp\<close> column and a JavaScript \<open>Date\<close> are the number of
  milliseconds since the epoch (\<open>Date.getTime()\<close>), an \<open>int\<close>; a nullable column is an
  \<open>option\<close>. JavaScript numbers are modelled by \<open>int\<close>, which is exact for the integers
  up to \<open>2^53\<close> in absolute value. The insert types are the row types themselves with
  every column supplied, as \<open>syncServersAndChannels\<close>, \<open>storeMessage\<close> and the command
  loggers of the program supply them.
\<close>

record DiscordServer =
  srv_id :: string
  srv_name :: string
  srv_icon :: "string option"
  srv_joined_at :: int

record DiscordChannel =
  ch_id :: string
  ch_server_id :: string
  ch_name :: string
  ch_type :: string

record DiscordMessage =
  msg_id :: string
  msg_server_id :: string
  msg_channel_id :: string
  msg_author_id :: string
  msg_author_username :: string
  msg_author_discriminator :: "string option"
  msg_content :: string
  msg_created_at :: int

record BotStatus =
  bs_id :: int
  is_online :: int
  uptime_started :: "int option"
  servers_count :: int
  channels_count :: int
  messages_count :: int
  storage_usage :: int

record CommandLog =
  log_id :: int
  log_command :: string
  log_response :: string
  log_executed_at :: int

record InsertCommandLog =
  ins_command :: string
  ins_response :: string
  ins_executed_at :: int

text \<open>The options object of \<open>getMessages\<close>; an absent property is \<open>None\<close>.\<close>

record MessageOptions =
  opt_serverId :: "string option"
  opt_channelId :: "string option"
  opt_search :: "string option"
  opt_limit :: "int option"
  opt_offset :: "int option"

text \<open>
  An exception is a value: \<open>Error msg\<close> is a thrown \<open>Error\<close> whose \<open>message\<close> is
  \<open>msg\<close>.
\<close>

datatype error = Error string

section \<open>JavaScript values\<close>

text \<open>
  A JavaScript \<open>Map\<close> keeps its entries in insertion order with distinct keys:
  \<open>set\<close> on a present key replaces the value where it stands, on an absent key it
  appends; this is \<open>DAList.update\<close> on an association list with distinct keys.
  \<open>Map.size\<close> is the number of entries, \<open>Map.values()\<close> their values in order.
\<close>

definition Map_size :: "('k, 'v) alist \<Rightarrow> int" where
  "Map_size m = int (length (DAList.impl_of m))"

definition Map_values :: "('k, 'v) alist \<Rightarrow> 'v list" where
  "Map_values m = map snd (DAList.impl_of m)"

text \<open>
  The truthiness test \<open>if (s)\<close> on an optional string: \<open>undefined\<close> and the empty
  string are falsy.
\<close>

definition truthy :: "string option \<Rightarrow> bool" where
  "truthy s = (case s of None \<Rightarrow> False | Some v \<Rightarrow> v \<noteq> [])"

text \<open>
  \<open>Array.prototype.slice(start, end)\<close>: a negative index counts from the end of the
  array, and both indices are clamped to the array.
\<close>

definition slice_index :: "int \<Rightarrow> int \<Rightarrow> nat" where
  "slice_index len i = (if i < 0 then nat (max (len + i) 0) else nat (min i len))"

definition js_slice :: "int \<Rightarrow> int \<Rightarrow> 'a list \<Rightarrow> 'a list" where
  "js_slice start fin xs =
     (let len = int (length xs);
          k = slice_index len start;
          final = slice_index len fin
      in take (final - k) (drop k xs))"

text \<open>
  \<open>Array.prototype.sort\<close> with the comparator \<open>(a, b) => key(b) - key(a)\<close> is a stable
  sort by descending key.
\<close>

definition sort_desc :: "('a \<Rightarrow> int) \<Rightarrow> 'a list \<Rightarrow> 'a list" where
  "sort_desc key xs = sort_key (\<lambda>x. - key x) xs"

text \<open>
  A string is the list of the bytes of its UTF-8 encoding. On ASCII text every
  operation below is the program's. Beyond ASCII the white space that \<open>parseInt\<close> skips
  is modelled for all of Unicode; the case mapping of other letters is not modelled, and
  a length or a position counts bytes where JavaScript counts UTF-16 code units.

  \<open>String.prototype.toLowerCase\<close> on the ASCII letters.
\<close>

definition lower_char :: "char \<Rightarrow> char" where
  "lower_char c =
     (case map_of (zip ''ABCDEFGHIJKLMNOPQRSTUVWXYZ'' ''abcdefghijklmnopqrstuvwxyz'') c of
        Some l \<Rightarrow> l
      | None \<Rightarrow> c)"

definition toLowerCase :: "string \<Rightarrow> string" where
  "toLowerCase s = map lower_char s"

text \<open>\<open>String.prototype.includes\<close>: the argument occurs as a contiguous substring.\<close>

fun starts_with :: "string \<Rightarrow> string \<Rightarrow> bool" where
  "starts_with s [] = True"
| "starts_with [] (p # ps) = False"
| "starts_with (c # cs) (p # ps) = (c = p \<and> starts_with cs ps)"

fun js_includes :: "string \<Rightarrow> string \<Rightarrow> bool" where
  "js_includes [] p = (p = [])"
| "js_includes (c # cs) p = (starts_with (c # cs) p \<or> js_includes cs p)"

section \<open>MemStorage (server/storage.ts)\<close>

text \<open>
  The fields of the class; the \<open>users\<close> map and its counter are left out, no
  operation modelled here reads or writes them.
\<close>

record MemStorage =
  discordServers :: "(string, DiscordServer) alist"
  discordChannels :: "(string, DiscordChannel) alist"
  discordMessages :: "(string, DiscordMessage) alist"
  botStatusRecord :: BotStatus
  commandLogs :: "CommandLog list"
  commandLogCurrentId :: int

text \<open>The constructor.\<close>

definition initial_status :: BotStatus where
  "initial_status =
     \<lparr>bs_id = 1, is_online = 0, uptime_started = None, servers_count = 0,
      channels_count = 0, messages_count = 0, storage_usage = 0\<rparr>"

definition MemStorage_new :: MemStorage where
  "MemStorage_new =
     \<lparr>discordServers = DAList.empty, discordChannels = DAList.empty,
      discordMessages = DAList.empty, botStatusRecord = initial_status,
      commandLogs = [], commandLogCurrentId = 1\<rparr>"

definition MemStorage_getServers :: "MemStorage \<Rightarrow> DiscordServer list" where
  "MemStorage_getServers st = Map_values (discordServers st)"

definition MemStorage_getServer :: "string \<Rightarrow> MemStorage \<Rightarrow> DiscordServer option" where
  "MemStorage_getServer k st = DAList.lookup (discordServers st) k"

definition MemStorage_createServer ::
  "DiscordServer \<Rightarrow> MemStorage \<Rightarrow> DiscordServer \<times> MemStorage" where
  "MemStorage_createServer server st =
     (let servers = DAList.update (srv_id server) server (discordServers st);
          st1 = st\<lparr>discordServers := servers\<rparr>;
          st2 = st1\<lparr>botStatusRecord := (botStatusRecord st1)\<lparr>servers_count := Map_size servers\<rparr>\<rparr>
      in (server, st2))"

definition MemStorage_getChannels :: "string option \<Rightarrow> MemStorage \<Rightarrow> DiscordChannel list" where
  "MemStorage_getChannels serverId st =
     (if truthy serverId
      then filter (\<lambda>channel. ch_server_id channel = the serverId) (Map_values (discordChannels st))
      else Map_values (discordChannels st))"

definition MemStorage_getChannel :: "string \<Rightarrow> MemStorage \<Rightarrow> DiscordChannel option" where
  "MemStorage_getChannel k st = DAList.lookup (discordChannels st) k"

definition MemStorage_createChannel ::
  "DiscordChannel \<Rightarrow> MemStorage \<Rightarrow> DiscordChannel \<times> MemStorage" where
  "MemStorage_createChannel channel st =
     (let channels = DAList.update (ch_id channel) channel (discordChannels st);
          st1 = st\<lparr>discordChannels := channels\<rparr>;
          st2 = st1\<lparr>botStatusRecord := (botStatusRecord st1)\<lparr>channels_count := Map_size channels\<rparr>\<rparr>
      in (channel, st2))"

text \<open>
  The three optional filters of \<open>getMessages\<close>, each applied only when its option is
  truthy, as the three \<open>if\<close> statements of both implementations test it.
\<close>

definition search_hit :: "string \<Rightarrow> DiscordMessage \<Rightarrow> bool" where
  "search_hit search msg =
     (let searchLower = toLowerCase search
      in js_includes (toLowerCase (msg_content msg)) searchLower \<or>
         js_includes (toLowerCase (msg_author_username msg)) searchLower)"

definition MemStorage_filtered :: "MessageOptions \<Rightarrow> DiscordMessage list \<Rightarrow> DiscordMessage list" where
  "MemStorage_filtered options all =
     (let f1 = (if truthy (opt_serverId options)
                then filter (\<lambda>msg. msg_server_id msg = the (opt_serverId options)) all else all);
          f2 = (if truthy (opt_channelId options)
                then filter (\<lambda>msg. msg_channel_id msg = the (opt_channelId options)) f1 else f1);
          f3 = (if truthy (opt_search options)
                then filter (search_hit (the (opt_search options))) f2 else f2)
      in sort_desc msg_created_at f3)"

definition MemStorage_getMessages ::
  "MessageOptions \<Rightarrow> MemStorage \<Rightarrow> error + (DiscordMessage list \<times> int)" where
  "MemStorage_getMessages options st =
     (let limit = (case opt_limit options of None \<Rightarrow> 10 | Some l \<Rightarrow> l);
          offset = (case opt_offset options of None \<Rightarrow> 0 | Some off \<Rightarrow> off);
          filteredMessages = MemStorage_filtered options (Map_values (discordMessages st))
      in Inr (js_slice offset (offset + limit) filteredMessages,
              int (length filteredMessages)))"

definition MemStorage_getMessage :: "string \<Rightarrow> MemStorage \<Rightarrow> DiscordMessage option" where
  "MemStorage_getMessage k st = DAList.lookup (discordMessages st) k"

definition MemStorage_calculateStorageUsage :: "MemStorage \<Rightarrow> int" where
  "MemStorage_calculateStorageUsage st = Map_size (discordMessages st)"

definition MemStorage_createMessage ::
  "DiscordMessage \<Rightarrow> MemStorage \<Rightarrow> DiscordMessage \<times> MemStorage" where
  "MemStorage_createMessage message st =
     (let st1 = st\<lparr>discordMessages := DAList.update (msg_id message) message (discordMessages st)\<rparr>;
          st2 = st1\<lparr>botStatusRecord :=
                  (botStatusRecord st1)\<lparr>messages_count := Map_size (discordMessages st1)\<rparr>\<rparr>;
          st3 = st2\<lparr>botStatusRecord :=
                  (botStatusRecord st2)\<lparr>storage_usage := MemStorage_calculateStorageUsage st2\<rparr>\<rparr>
      in (message, st3))"

text \<open>
  The time zone of the process, by the two offsets of ECMAScript, in milliseconds:
  \<open>LocalTZA_utc t\<close> is the offset of local time from UTC at the instant \<open>t\<close>
  (\<open>LocalTZA(t, true)\<close>), and \<open>LocalTZA_local t\<close> the offset in force at the local time
  \<open>t\<close> (\<open>LocalTZA(t, false)\<close>). The zone is a parameter of the storage classes: its rules
  are data of the platform, read by \<open>Date\<close>.
\<close>

record TimeZone =
  LocalTZA_utc :: "int \<Rightarrow> int"
  LocalTZA_local :: "int \<Rightarrow> int"

definition LocalTime :: "TimeZone \<Rightarrow> int \<Rightarrow> int" where
  "LocalTime tz t = t + LocalTZA_utc tz t"

definition UTC :: "TimeZone \<Rightarrow> int \<Rightarrow> int" where
  "UTC tz t = t - LocalTZA_local tz t"

definition msPerDay :: int where
  "msPerDay = 86400000"

text \<open>
  \<open>addDays(date, amount)\<close> of date-fns: the date itself for the amount 0, and else
  \<open>date.setDate(date.getDate() + amount)\<close>, which moves the local time by whole days and
  reads the result back as an instant.
\<close>

definition addDays :: "TimeZone \<Rightarrow> int \<Rightarrow> int \<Rightarrow> int" where
  "addDays tz date amount =
     (if amount = 0 then date else UTC tz (LocalTime tz date + amount * msPerDay))"

text \<open>
  \<open>sub(date, {weeks})\<close> of date-fns: no months to subtract, then \<open>subDays\<close> of seven days
  a week, which is \<open>addDays\<close> of the negated amount, then no smaller units.
\<close>

definition sub_weeks :: "TimeZone \<Rightarrow> int \<Rightarrow> int \<Rightarrow> int" where
  "sub_weeks tz date weeks = addDays tz date (- (weeks * 7))"

definition MemStorage_deleteOldMessages :: "TimeZone \<Rightarrow> int \<Rightarrow> MemStorage \<Rightarrow> int \<times> MemStorage" where
  "MemStorage_deleteOldMessages tz now st =
     (let twoWeeksAgo = sub_weeks tz now 2;
          messagesToDelete =
            map fst (filter (\<lambda>(k, message). msg_created_at message < twoWeeksAgo)
                       (DAList.impl_of (discordMessages st)));
          st1 = st\<lparr>discordMessages := fold DAList.delete messagesToDelete (discordMessages st)\<rparr>;
          st2 = st1\<lparr>botStatusRecord :=
                  (botStatusRecord st1)\<lparr>messages_count := Map_size (discordMessages st1)\<rparr>\<rparr>;
          st3 = st2\<lparr>botStatusRecord :=
                  (botStatusRecord st2)\<lparr>storage_usage := MemStorage_calculateStorageUsage st2\<rparr>\<rparr>
      in (int (length messagesToDelete), st3))"

definition MemStorage_getBotStatus :: "MemStorage \<Rightarrow> BotStatus option" where
  "MemStorage_getBotStatus st = Some (botStatusRecord st)"

text \<open>
  \<open>updateBotStatus\<close> as the bot calls it on connecting and disconnecting, with the
  partial status \<open>{is_online, uptime_started}\<close>.
\<close>

definition MemStorage_updateBotStatus :: "int \<Rightarrow> int option \<Rightarrow> MemStorage \<Rightarrow> BotStatus \<times> MemStorage" where
  "MemStorage_updateBotStatus online started st =
     (let st1 = st\<lparr>botStatusRecord := (botStatusRecord st)\<lparr>is_online := online, uptime_started := started\<rparr>\<rparr>
      in (botStatusRecord st1, st1))"

definition MemStorage_getCommandLogs :: "int \<Rightarrow> MemStorage \<Rightarrow> CommandLog list" where
  "MemStorage_getCommandLogs limit st =
     js_slice 0 limit (sort_desc log_executed_at (commandLogs st))"

definition MemStorage_createCommandLog ::
  "InsertCommandLog \<Rightarrow> MemStorage \<Rightarrow> CommandLog \<times> MemStorage" where
  "MemStorage_createCommandLog log st =
     (let newLog = \<lparr>log_id = commandLogCurrentId st, log_command = ins_command log,
                    log_response = ins_response log, log_executed_at = ins_executed_at log\<rparr>;
          st1 = st\<lparr>commandLogCurrentId := commandLogCurrentId st + 1\<rparr>;
          st2 = st1\<lparr>commandLogs := commandLogs st1 @ [newLog]\<rparr>;
          st3 = (if int (length (commandLogs st2)) > 1000
                 then st2\<lparr>commandLogs := js_slice 0 1000 (sort_desc log_executed_at (commandLogs st2))\<rparr>
                 else st2)
      in (newLog, st3))"

section \<open>DatabaseStorage (server/database-storage.ts)\<close>

text \<open>
  The database holds one table per entity. A table with a primary key is a list of
  rows with distinct keys; \<open>INSERT\<close> of an absent key appends a row, \<open>UPDATE ... WHERE
  id = k\<close> rewrites the row where it stands, a \<open>SELECT\<close> without \<open>ORDER BY\<close> reads the
  rows in table order and \<open>ORDER BY ... DESC\<close> sorts them stably (PostgreSQL leaves the
  order of rows with equal sort keys open). The \<open>bot_status\<close> table holds at most the
  row with \<open>id = 1\<close>; \<open>command_logs\<close> has a serial key drawn from a sequence. A
  statement that the database server refuses for a reason outside these tables
  (connection loss, column width) is not modelled: an operation here is a completed
  call.
\<close>

record Database =
  tbl_discordServers :: "(string, DiscordServer) alist"
  tbl_discordChannels :: "(string, DiscordChannel) alist"
  tbl_discordMessages :: "(string, DiscordMessage) alist"
  tbl_botStatus :: "BotStatus option"
  tbl_commandLogs :: "CommandLog list"
  commandLogs_id_seq :: int

text \<open>The empty database after \<open>initDatabase\<close> has inserted the status row.\<close>

definition DatabaseStorage_new :: Database where
  "DatabaseStorage_new =
     \<lparr>tbl_discordServers = DAList.empty, tbl_discordChannels = DAList.empty,
      tbl_discordMessages = DAList.empty, tbl_botStatus = Some initial_status,
      tbl_commandLogs = [], commandLogs_id_seq = 1\<rparr>"

definition updateServerCount :: "Database \<Rightarrow> Database" where
  "updateServerCount db =
     (let count = Map_size (tbl_discordServers db)
      in db\<lparr>tbl_botStatus := map_option (\<lambda>b. b\<lparr>servers_count := count\<rparr>) (tbl_botStatus db)\<rparr>)"

definition updateChannelCount :: "Database \<Rightarrow> Database" where
  "updateChannelCount db =
     (let count = Map_size (tbl_discordChannels db)
      in db\<lparr>tbl_botStatus := map_option (\<lambda>b. b\<lparr>channels_count := count\<rparr>) (tbl_botStatus db)\<rparr>)"

definition DatabaseStorage_calculateStorageUsage :: "Database \<Rightarrow> int" where
  "DatabaseStorage_calculateStorageUsage db = Map_size (tbl_discordMessages db)"

definition updateMessageCount :: "Database \<Rightarrow> Database" where
  "updateMessageCount db =
     (let count = Map_size (tbl_discordMessages db);
          storageUsage = DatabaseStorage_calculateStorageUsage db
      in db\<lparr>tbl_botStatus :=
              map_option (\<lambda>b. b\<lparr>messages_count := count, storage_usage := storageUsage\<rparr>)
                (tbl_botStatus db)\<rparr>)"

definition DatabaseStorage_getServers :: "Database \<Rightarrow> DiscordServer list" where
  "DatabaseStorage_getServers db = Map_values (tbl_discordServers db)"

definition DatabaseStorage_getServer :: "string \<Rightarrow> Database \<Rightarrow> DiscordServer option" where
  "DatabaseStorage_getServer k db = DAList.lookup (tbl_discordServers db) k"

definition DatabaseStorage_createServer ::
  "DiscordServer \<Rightarrow> Database \<Rightarrow> DiscordServer \<times> Database" where
  "DatabaseStorage_createServer server db =
     (case DatabaseStorage_getServer (srv_id server) db of
        Some existing \<Rightarrow>
          (let row = existing\<lparr>srv_name := srv_name server, srv_icon := srv_icon server\<rparr>
           in (row, db\<lparr>tbl_discordServers := DAList.update (srv_id server) row (tbl_discordServers db)\<rparr>))
      | None \<Rightarrow>
          (let db1 = db\<lparr>tbl_discordServers := DAList.update (srv_id server) server (tbl_discordServers db)\<rparr>
           in (server, updateServerCount db1)))"

definition DatabaseStorage_getChannels :: "string option \<Rightarrow> Database \<Rightarrow> DiscordChannel list" where
  "DatabaseStorage_getChannels serverId db =
     (if truthy serverId
      then filter (\<lambda>channel. ch_server_id channel = the serverId) (Map_values (tbl_discordChannels db))
      else Map_values (tbl_discordChannels db))"

definition DatabaseStorage_getChannel :: "string \<Rightarrow> Database \<Rightarrow> DiscordChannel option" where
  "DatabaseStorage_getChannel k db = DAList.lookup (tbl_discordChannels db) k"

definition DatabaseStorage_createChannel ::
  "DiscordChannel \<Rightarrow> Database \<Rightarrow> DiscordChannel \<times> Database" where
  "DatabaseStorage_createChannel channel db =
     (case DatabaseStorage_getChannel (ch_id channel) db of
        Some existing \<Rightarrow>
          (let row = existing\<lparr>ch_name := ch_name channel, ch_type := ch_type channel\<rparr>
           in (row, db\<lparr>tbl_discordChannels := DAList.update (ch_id channel) row (tbl_discordChannels db)\<rparr>))
      | None \<Rightarrow>
          (let db1 = db\<lparr>tbl_discordChannels := DAList.update (ch_id channel) channel (tbl_discordChannels db)\<rparr>
           in (channel, updateChannelCount db1)))"

definition DatabaseStorage_getMessage :: "string \<Rightarrow> Database \<Rightarrow> DiscordMessage option" where
  "DatabaseStorage_getMessage k db = DAList.lookup (tbl_discordMessages db) k"

definition DatabaseStorage_createMessage ::
  "DiscordMessage \<Rightarrow> Database \<Rightarrow> DiscordMessage \<times> Database" where
  "DatabaseStorage_createMessage message db =
     (case DatabaseStorage_getMessage (msg_id message) db of
        Some existing \<Rightarrow> (existing, db)
      | None \<Rightarrow>
          (let db1 = db\<lparr>tbl_discordMessages := DAList.update (msg_id message) message (tbl_discordMessages db)\<rparr>
           in (message, updateMessageCount db1)))"

text \<open>
  The cutoff is computed as in the in-memory implementation. The driver set up in
  \<open>server/db.ts\<close> hands it to PostgreSQL; the comparison is taken on instants, as the
  \<open>created_at\<close> column is written and read.
\<close>

definition DatabaseStorage_deleteOldMessages :: "TimeZone \<Rightarrow> int \<Rightarrow> Database \<Rightarrow> int \<times> Database" where
  "DatabaseStorage_deleteOldMessages tz now db =
     (let twoWeeksAgo = sub_weeks tz now 2;
          result = filter (\<lambda>(k, message). msg_created_at message < twoWeeksAgo)
                     (DAList.impl_of (tbl_discordMessages db));
          db1 = db\<lparr>tbl_discordMessages :=
                   DAList.filter (\<lambda>(k, message). \<not> msg_created_at message < twoWeeksAgo)
                     (tbl_discordMessages db)\<rparr>
      in (int (length result), updateMessageCount db1))"

definition DatabaseStorage_getBotStatus :: "Database \<Rightarrow> BotStatus option" where
  "DatabaseStorage_getBotStatus db = tbl_botStatus db"

text \<open>
  \<open>.limit(limit).offset(offset)\<close> of drizzle-orm on PostgreSQL. The query builder writes
  the \<open>LIMIT\<close> clause only for a number that is not negative, so that a negative limit
  leaves the rows unlimited, and the \<open>OFFSET\<close> clause only for an offset other than 0;
  PostgreSQL refuses a negative \<open>OFFSET\<close>, which the driver raises as an exception.
\<close>

definition sql_limit_offset :: "int \<Rightarrow> int \<Rightarrow> 'a list \<Rightarrow> error + 'a list" where
  "sql_limit_offset limit offset rows =
     (if offset < 0 then Inl (Error ''OFFSET must not be negative'')
      else if limit < 0 then Inr (drop (nat offset) rows)
      else Inr (take (nat limit) (drop (nat offset) rows)))"

text \<open>
  The SQL operator \<open>LIKE\<close>, the pattern first: \<open>%\<close> stands for any run of characters,
  \<open>_\<close> for any one character, and a backslash takes the next pattern character
  literally. \<open>ILIKE\<close> is \<open>LIKE\<close> without regard to case.
\<close>

fun like_match :: "string \<Rightarrow> string \<Rightarrow> bool" where
  "like_match [] s = (s = [])"
| "like_match (p # ps) s =
     (if p = CHR ''%''
      then (like_match ps s \<or> (case s of [] \<Rightarrow> False | c # cs \<Rightarrow> like_match (p # ps) cs))
      else if p = CHR ''_''
      then (case s of [] \<Rightarrow> False | c # cs \<Rightarrow> like_match ps cs)
      else if p = CHR 0x5C
      then (case ps of
              [] \<Rightarrow> False
            | q # qs \<Rightarrow> (case s of [] \<Rightarrow> False | c # cs \<Rightarrow> c = q \<and> like_match qs cs))
      else (case s of [] \<Rightarrow> False | c # cs \<Rightarrow> c = p \<and> like_match ps cs))"

definition ilike :: "string \<Rightarrow> string \<Rightarrow> bool" where
  "ilike s pattern = like_match (toLowerCase pattern) (toLowerCase s)"

definition search_condition :: "string \<Rightarrow> DiscordMessage \<Rightarrow> bool" where
  "search_condition search msg =
     (ilike (msg_content msg) (''%'' @ search @ ''%'') \<or>
      ilike (msg_author_username msg) (''%'' @ search @ ''%''))"

text \<open>The \<open>WHERE\<close> clause that \<open>getMessages\<close> builds: the conjunction of its conditions.\<close>

definition DatabaseStorage_conditions :: "MessageOptions \<Rightarrow> DiscordMessage \<Rightarrow> bool" where
  "DatabaseStorage_conditions options msg =
     ((if truthy (opt_serverId options) then msg_server_id msg = the (opt_serverId options) else True) \<and>
      (if truthy (opt_channelId options) then msg_channel_id msg = the (opt_channelId options) else True) \<and>
      (if truthy (opt_search options) then search_condition (the (opt_search options)) msg else True))"

definition DatabaseStorage_getMessages ::
  "MessageOptions \<Rightarrow> Database \<Rightarrow> error + (DiscordMessage list \<times> int)" where
  "DatabaseStorage_getMessages options db =
     (let limit = (case opt_limit options of None \<Rightarrow> 10 | Some l \<Rightarrow> l);
          offset = (case opt_offset options of None \<Rightarrow> 0 | Some off \<Rightarrow> off);
          selected = filter (DatabaseStorage_conditions options) (Map_values (tbl_discordMessages db));
          totalCount = int (length selected)
      in case sql_limit_offset limit offset (sort_desc msg_created_at selected) of
           Inl e \<Rightarrow> Inl e
         | Inr messages \<Rightarrow> Inr (messages, totalCount))"

definition DatabaseStorage_updateBotStatus ::
  "int \<Rightarrow> int option \<Rightarrow> Database \<Rightarrow> BotStatus option \<times> Database" where
  "DatabaseStorage_updateBotStatus online started db =
     (let db1 = db\<lparr>tbl_botStatus :=
                   map_option (\<lambda>b. b\<lparr>is_online := online, uptime_started := started\<rparr>) (tbl_botStatus db)\<rparr>
      in (tbl_botStatus db1, db1))"

definition DatabaseStorage_getCommandLogs :: "int \<Rightarrow> Database \<Rightarrow> error + CommandLog list" where
  "DatabaseStorage_getCommandLogs limit db =
     sql_limit_offset limit 0 (sort_desc log_executed_at (tbl_commandLogs db))"

definition DatabaseStorage_createCommandLog ::
  "InsertCommandLog \<Rightarrow> Database \<Rightarrow> CommandLog \<times> Database" where
  "DatabaseStorage_createCommandLog log db =
     (let newLog = \<lparr>log_id = commandLogs_id_seq db, log_command = ins_command log,
                    log_response = ins_response log, log_executed_at = ins_executed_at log\<rparr>
      in (newLog, db\<lparr>tbl_commandLogs := tbl_commandLogs db @ [newLog],
                      commandLogs_id_seq := commandLogs_id_seq db + 1\<rparr>))"

section \<open>The storage interface (IStorage)\<close>

text \<open>
  The interface is a record of operations over a storage state \<open>'s\<close>, holding the
  methods that the command executor and the HTTP route call; the two classes are its
  two values, each for the time zone of its process. An operation that reads the clock
  takes the time of the call. The command executor and the route are written against
  the interface, as in the program.
\<close>

record 's IStorage =
  getServers :: "'s \<Rightarrow> DiscordServer list"
  getChannels :: "string option \<Rightarrow> 's \<Rightarrow> DiscordChannel list"
  getChannel :: "string \<Rightarrow> 's \<Rightarrow> DiscordChannel option"
  getMessages :: "MessageOptions \<Rightarrow> 's \<Rightarrow> error + (DiscordMessage list \<times> int)"
  deleteOldMessages :: "int \<Rightarrow> 's \<Rightarrow> int \<times> 's"
  getBotStatus :: "'s \<Rightarrow> BotStatus option"
  createCommandLog :: "InsertCommandLog \<Rightarrow> 's \<Rightarrow> CommandLog \<times> 's"

definition MemStorage :: "TimeZone \<Rightarrow> MemStorage IStorage" where
  "MemStorage tz =
     \<lparr>getServers = MemStorage_getServers, getChannels = MemStorage_getChannels,
      getChannel = MemStorage_getChannel, getMessages = MemStorage_getMessages,
      deleteOldMessages = MemStorage_deleteOldMessages tz, getBotStatus = MemStorage_getBotStatus,
      createCommandLog = MemStorage_createCommandLog\<rparr>"

definition DatabaseStorage :: "TimeZone \<Rightarrow> Database IStorage" where
  "DatabaseStorage tz =
     \<lparr>getServers = DatabaseStorage_getServers, getChannels = DatabaseStorage_getChannels,
      getChannel = DatabaseStorage_getChannel, getMessages = DatabaseStorage_getMessages,
      deleteOldMessages = DatabaseStorage_deleteOldMessages tz,
      getBotStatus = DatabaseStorage_getBotStatus,
      createCommandLog = DatabaseStorage_createCommandLog\<rparr>"

section \<open>Numbers and strings of the command layer\<close>

text \<open>
  \<open>String(n)\<close> and the template literal on an integer below \<open>10 ^ 21\<close> in absolute value:
  its decimal digits.
\<close>

definition digit_char :: "nat \<Rightarrow> char" where
  "digit_char d = ''0123456789'' ! d"

fun string_of_nat :: "nat \<Rightarrow> string" where
  "string_of_nat n =
     (if n < 10 then [digit_char n] else string_of_nat (n div 10) @ [digit_char (n mod 10)])"

declare string_of_nat.simps [simp del]

definition toString :: "int \<Rightarrow> string" where
  "toString n = (if n < 0 then CHR ''-'' # string_of_nat (nat (- n)) else string_of_nat (nat n))"

text \<open>
  The white space and line terminators of ECMAScript (\<open>StrWhiteSpaceChar\<close>), each by its
  UTF-8 bytes: U+0009 to U+000D, U+0020, U+00A0, U+1680, U+2000 to U+200A, U+2028,
  U+2029, U+202F, U+205F, U+3000 and U+FEFF.
\<close>

definition white_space :: "string list" where
  "white_space =
     [[CHR 0x09], [CHR 0x0A], [CHR 0x0B], [CHR 0x0C], [CHR 0x0D], [CHR 0x20],
      [CHR 0xC2, CHR 0xA0],
      [CHR 0xE1, CHR 0x9A, CHR 0x80],
      [CHR 0xE2, CHR 0x80, CHR 0x80], [CHR 0xE2, CHR 0x80, CHR 0x81],
      [CHR 0xE2, CHR 0x80, CHR 0x82], [CHR 0xE2, CHR 0x80, CHR 0x83],
      [CHR 0xE2, CHR 0x80, CHR 0x84], [CHR 0xE2, CHR 0x80, CHR 0x85],
      [CHR 0xE2, CHR 0x80, CHR 0x86], [CHR 0xE2, CHR 0x80, CHR 0x87],
      [CHR 0xE2, CHR 0x80, CHR 0x88], [CHR 0xE2, CHR 0x80, CHR 0x89],
      [CHR 0xE2, CHR 0x80, CHR 0x8A],
      [CHR 0xE2, CHR 0x80, CHR 0xA8], [CHR 0xE2, CHR 0x80, CHR 0xA9],
      [CHR 0xE2, CHR 0x80, CHR 0xAF],
      [CHR 0xE2, CHR 0x81, CHR 0x9F],
      [CHR 0xE3, CHR 0x80, CHR 0x80],
      [CHR 0xEF, CHR 0xBB, CHR 0xBF]]"

text \<open>The string without its leading white space.\<close>

function trim_start :: "string \<Rightarrow> string" where
  "trim_start s =
     (case find (starts_with s) white_space of
        None \<Rightarrow> s
      | Some w \<Rightarrow> trim_start (drop (length w) s))"
  by pat_completeness auto
termination
proof (relation "measure length")
  show "wf (measure length)" by simp
next
  fix s w :: string
  assume "find (starts_with s) white_space = Some w"
  then have w: "w \<in> set white_space" and s: "starts_with s w"
    by (auto simp: find_Some_iff)
  from w have "w \<noteq> []" by (auto simp: white_space_def)
  moreover from s \<open>w \<noteq> []\<close> have "s \<noteq> []" by (cases s; cases w) simp_all
  ultimately show "(drop (length w) s, s) \<in> measure length" by simp
qed

declare trim_start.simps [simp del]

text \<open>
  \<open>parseInt(s)\<close> without a radix: leading white space is skipped, then an optional
  sign, then the prefix \<open>0x\<close> or \<open>0X\<close> selects radix 16; the number is the longest run
  of digits of the radix, and \<open>NaN\<close> (here \<open>None\<close>) when that run is empty. The result
  is the program's for numbers up to \<open>2 ^ 53\<close> in absolute value; a longer run of digits
  JavaScript rounds to a double, which is not modelled.
\<close>

definition digit_table :: "(char \<times> nat) list" where
  "digit_table =
     zip ''0123456789abcdef'' [0, 1, 2, 3, 4, 5, 6, 7, 8, 9, 10, 11, 12, 13, 14, 15] @
     zip ''ABCDEF'' [10, 11, 12, 13, 14, 15]"

definition digit_value :: "nat \<Rightarrow> char \<Rightarrow> nat option" where
  "digit_value radix c =
     (case map_of digit_table c of
        Some d \<Rightarrow> if d < radix then Some d else None
      | None \<Rightarrow> None)"

definition digits_value :: "nat \<Rightarrow> string \<Rightarrow> nat" where
  "digits_value radix ds = foldl (\<lambda>acc c. acc * radix + the (digit_value radix c)) 0 ds"

definition parse_digits :: "nat \<Rightarrow> string \<Rightarrow> nat option" where
  "parse_digits radix s =
     (let ds = takeWhile (\<lambda>c. digit_value radix c \<noteq> None) s
      in if ds = [] then None else Some (digits_value radix ds))"

definition parse_unsigned :: "string \<Rightarrow> nat option" where
  "parse_unsigned s =
     (if starts_with s ''0x'' \<or> starts_with s ''0X'' then parse_digits 16 (drop 2 s)
      else parse_digits 10 s)"

definition parseInt :: "string \<Rightarrow> int option" where
  "parseInt s =
     (case trim_start s of
        [] \<Rightarrow> None
      | c # cs \<Rightarrow>
          if c = CHR ''-'' then map_option (\<lambda>n. - int n) (parse_unsigned cs)
          else if c = CHR ''+'' then map_option int (parse_unsigned cs)
          else map_option int (parse_unsigned (c # cs)))"

text \<open>\<open>s.split(' ')\<close>: the pieces between single spaces; never the empty array.\<close>

fun split_space :: "string \<Rightarrow> string list" where
  "split_space [] = [[]]"
| "split_space (c # cs) =
     (if c = CHR '' '' then [] # split_space cs
      else (case split_space cs of [] \<Rightarrow> [[c]] | w # ws \<Rightarrow> (c # w) # ws))"

text \<open>\<open>xs.join(sep)\<close>.\<close>

fun join :: "string \<Rightarrow> string list \<Rightarrow> string" where
  "join sep [] = []"
| "join sep [x] = x"
| "join sep (x # y # ys) = x @ sep @ join sep (y # ys)"

definition newline :: string where
  "newline = [CHR 0x0A]"

text \<open>
  \<open>s.match(/<#(\d+)>/)\<close>: the leftmost place where \<open><#\<close>, a non-empty run of decimal
  digits and \<open>>\<close> follow one another; the result is the run of digits (group 1).
\<close>

definition is_digit :: "char \<Rightarrow> bool" where
  "is_digit c = (c \<in> set ''0123456789'')"

definition mention_at :: "string \<Rightarrow> string option" where
  "mention_at s =
     (if starts_with s ''<#''
      then (let ds = takeWhile is_digit (drop 2 s); rest = dropWhile is_digit (drop 2 s)
            in if ds \<noteq> [] \<and> starts_with rest ''>'' then Some ds else None)
      else None)"

fun channel_mention :: "string \<Rightarrow> string option" where
  "channel_mention [] = None"
| "channel_mention (c # cs) =
     (case mention_at (c # cs) of Some ds \<Rightarrow> Some ds | None \<Rightarrow> channel_mention cs)"

section \<open>DiscordBot (server/discord-bot.ts)\<close>

text \<open>
  Of the bot, the start time, the connection flag and whether the Discord client is
  ready (\<open>getClient().isReady()\<close>).
\<close>

record DiscordBot =
  startTime :: "int option"
  isConnected :: bool
  client_isReady :: bool

text \<open>
  The remainder operator \<open>%\<close> of JavaScript takes the sign of the dividend;
  \<open>Math.floor(a / b)\<close> on integers with \<open>b > 0\<close> is \<open>a div b\<close>.
\<close>

definition js_rem :: "int \<Rightarrow> int \<Rightarrow> int" where
  "js_rem a b = sgn a * (\<bar>a\<bar> mod \<bar>b\<bar>)"

definition getUptime :: "int \<Rightarrow> DiscordBot \<Rightarrow> string" where
  "getUptime now self =
     (case startTime self of
        None \<Rightarrow> ''0m''
      | Some start \<Rightarrow>
          (let uptimeMs = now - start;
               days = uptimeMs div (1000 * 60 * 60 * 24);
               hours = js_rem uptimeMs (1000 * 60 * 60 * 24) div (1000 * 60 * 60);
               minutes = js_rem uptimeMs (1000 * 60 * 60) div (1000 * 60)
           in if days > 0
              then toString days @ ''d '' @ toString hours @ ''h '' @ toString minutes @ ''m''
              else if hours > 0
              then toString hours @ ''h '' @ toString minutes @ ''m''
              else toString minutes @ ''m''))"

section \<open>Command executor (server/utils.ts)\<close>

definition formatUptime :: "int \<Rightarrow> int option \<Rightarrow> string" where
  "formatUptime now uptimeStarted =
     (case uptimeStarted of
        None \<Rightarrow> ''0m''
      | Some start \<Rightarrow>
          (let uptimeMs = now - start;
               days = uptimeMs div (1000 * 60 * 60 * 24);
               hours = js_rem uptimeMs (1000 * 60 * 60 * 24) div (1000 * 60 * 60);
               minutes = js_rem uptimeMs (1000 * 60 * 60) div (1000 * 60)
           in if days > 0
              then toString days @ ''d '' @ toString hours @ ''h '' @ toString minutes @ ''m''
              else if hours > 0
              then toString hours @ ''h '' @ toString minutes @ ''m''
              else toString minutes @ ''m''))"

definition formatHelpCommand :: string where
  "formatHelpCommand =
     join newline
       [''**Available Commands:**'',
        ''`!messages [channel] [count]` - Get recent messages'',
        ''`!stats` - Display message statistics'',
        ''`!help` - Show command list'',
        ''`!clear [days]` - Clear message logs older than X days'']"

text \<open>
  The two arguments of \<open>!messages\<close> as \<open>formatMessagesCommand\<close> parses them: the channel
  id and the limit passed to \<open>getMessages\<close>.
\<close>

definition messages_channelId :: "string list \<Rightarrow> string option" where
  "messages_channelId args = (if length args > 0 then channel_mention (args ! 0) else None)"

definition messages_limit :: "string list \<Rightarrow> int" where
  "messages_limit args =
     (if length args > 0 \<and> length args > 1 \<and> parseInt (args ! 1) \<noteq> None
      then min 20 (the (parseInt (args ! 1)))
      else 5)"

text \<open>
  One line of the answer. \<open>format_date\<close> stands for \<open>format(date, 'MMM d, yyyy HH:mm')\<close>
  of date-fns.
\<close>

definition format_message :: "(int \<Rightarrow> string) \<Rightarrow> DiscordMessage \<Rightarrow> string" where
  "format_message format_date msg =
     ''**'' @ msg_author_username msg @ ''** ('' @ format_date (msg_created_at msg) @ ''): '' @
     take 100 (msg_content msg) @ (if length (msg_content msg) > 100 then ''...'' else [])"

definition formatMessagesCommand ::
  "'s IStorage \<Rightarrow> (int \<Rightarrow> string) \<Rightarrow> string list \<Rightarrow> 's \<Rightarrow> error + string" where
  "formatMessagesCommand storage format_date args st =
     (let channelId = messages_channelId args;
          limit = messages_limit args
      in case getMessages storage
                \<lparr>opt_serverId = None, opt_channelId = channelId, opt_search = None,
                 opt_limit = Some limit, opt_offset = None\<rparr> st of
           Inl e \<Rightarrow> Inl e
         | Inr (messages, totalCount) \<Rightarrow>
             if length messages = 0 then Inr ''No messages found with the given criteria.''
             else
               (let channelName =
                      (if truthy channelId
                       then (case getChannel storage (the channelId) st of
                               Some channel \<Rightarrow> ''#'' @ ch_name channel
                             | None \<Rightarrow> ''all channels'')
                       else ''all channels'');
                    formattedMessages = join (newline @ newline) (map (format_message format_date) messages)
                in Inr (''**Recent Messages from '' @ channelName @ ''** (Showing '' @
                        toString (int (length messages)) @ '' of '' @ toString totalCount @
                        '' messages):'' @ newline @ newline @ formattedMessages)))"

definition formatStatsCommand :: "'s IStorage \<Rightarrow> int \<Rightarrow> DiscordBot \<Rightarrow> 's \<Rightarrow> error + string" where
  "formatStatsCommand storage now theBot st =
     (case getBotStatus storage st of
        None \<Rightarrow> Inr ''Error: Bot status not available''
      | Some status \<Rightarrow>
          (let servers = getServers storage st;
               channels = getChannels storage None st
           in case getMessages storage
                     \<lparr>opt_serverId = None, opt_channelId = None, opt_search = None,
                      opt_limit = None, opt_offset = None\<rparr> st of
                Inl e \<Rightarrow> Inl e
              | Inr (messages, messageCount) \<Rightarrow>
                  Inr (join newline
                    [''**Bot Statistics:**'',
                     ''Status: '' @ (if is_online status \<noteq> 0 then ''Online'' else ''Offline''),
                     ''Uptime: '' @ getUptime now theBot,
                     ''Monitoring '' @ toString (int (length servers)) @ '' servers and '' @
                       toString (int (length channels)) @ '' channels'',
                     ''Total Messages: '' @ toString messageCount,
                     ''Storage Usage: '' @ toString (storage_usage status) @ '' KB''])))"

definition clear_days :: "string list \<Rightarrow> int" where
  "clear_days args =
     (if length args > 0 \<and> parseInt (args ! 0) \<noteq> None then the (parseInt (args ! 0)) else 14)"

definition formatClearCommand :: "'s IStorage \<Rightarrow> int \<Rightarrow> string list \<Rightarrow> 's \<Rightarrow> string \<times> 's" where
  "formatClearCommand storage now args st =
     (let days = clear_days args;
          (deletedCount, st1) = deleteOldMessages storage now st
      in (''Cleared '' @ toString deletedCount @ '' messages older than '' @ toString days @
          '' days.'', st1))"

definition executeCommand ::
  "'s IStorage \<Rightarrow> (int \<Rightarrow> string) \<Rightarrow> int \<Rightarrow> string \<Rightarrow> string list \<Rightarrow> DiscordBot \<Rightarrow> 's
     \<Rightarrow> (error + string) \<times> 's" where
  "executeCommand storage format_date now command args theBot st =
     (if command = ''!help'' then (Inr formatHelpCommand, st)
      else if command = ''!messages'' then (formatMessagesCommand storage format_date args st, st)
      else if command = ''!stats'' then (formatStatsCommand storage now theBot st, st)
      else if command = ''!clear''
      then (let (response, st1) = formatClearCommand storage now args st in (Inr response, st1))
      else (Inl (Error ''Unknown command. Type !help for a list of commands''), st))"

section \<open>The route POST /api/execute-command (server/routes.ts)\<close>

text \<open>
  The request body after \<open>commandSchema.safeParse\<close> is \<open>Some command\<close> when it holds a
  string \<open>command\<close> and \<open>None\<close> otherwise; the module variable \<open>bot\<close> is \<open>None\<close> when no
  token was configured. The outcome is the HTTP status with the body's \<open>response\<close> or
  \<open>message\<close>, and the storage after the request.
\<close>

datatype http_response = Json string | Status int string

definition post_execute_command ::
  "'s IStorage \<Rightarrow> (int \<Rightarrow> string) \<Rightarrow> int \<Rightarrow> string option \<Rightarrow> DiscordBot option \<Rightarrow> 's
     \<Rightarrow> http_response \<times> 's" where
  "post_execute_command storage format_date now body theBot st =
     (case body of
        None \<Rightarrow> (Status 400 ''Invalid command format'', st)
      | Some command \<Rightarrow>
          (case theBot of
             None \<Rightarrow> (Status 503 ''Discord bot is not connected'', st)
           | Some b \<Rightarrow>
               (let commandArgs = split_space command
                in if length commandArgs = 0 \<or> \<not> starts_with (commandArgs ! 0) ''!''
                   then (Status 400 ''Command must start with !'', st)
                   else
                     (let (result, st1) =
                            (if client_isReady b
                             then executeCommand storage format_date now (commandArgs ! 0)
                                    (drop 1 commandArgs) b st
                             else (Inr ''Bot is not connected to Discord'', st))
                      in case result of
                           Inr response \<Rightarrow>
                             (Json response,
                              snd (createCommandLog storage
                                     \<lparr>ins_command = command, ins_response = response,
                                      ins_executed_at = now\<rparr> st1))
                         | Inl (Error errorMessage) \<Rightarrow>
                             (Status 500 (''Error executing command: '' @ errorMessage),
                              snd (createCommandLog storage
                                     \<lparr>ins_command = command,
                                      ins_response = ''Error: '' @ errorMessage,
                                      ins_executed_at = now\<rparr> st1))))))"

section \<open>Sequences of repository calls\<close>

text \<open>
  The mutating calls that the program makes on a repository: the two upserts of the
  topology sync, the store of a received message, the retention sweep at a given time,
  and the status update on connecting and disconnecting.
\<close>

datatype operation =
    CreateServer DiscordServer
  | CreateChannel DiscordChannel
  | CreateMessage DiscordMessage
  | DeleteOldMessages int
  | UpdateBotStatus int "int option"

fun MemStorage_call :: "TimeZone \<Rightarrow> operation \<Rightarrow> MemStorage \<Rightarrow> MemStorage" where
  "MemStorage_call tz (CreateServer server) st = snd (MemStorage_createServer server st)"
| "MemStorage_call tz (CreateChannel channel) st = snd (MemStorage_createChannel channel st)"
| "MemStorage_call tz (CreateMessage message) st = snd (MemStorage_createMessage message st)"
| "MemStorage_call tz (DeleteOldMessages now) st = snd (MemStorage_deleteOldMessages tz now st)"
| "MemStorage_call tz (UpdateBotStatus online started) st = snd (MemStorage_updateBotStatus online started st)"

fun DatabaseStorage_call :: "TimeZone \<Rightarrow> operation \<Rightarrow> Database \<Rightarrow> Database" where
  "DatabaseStorage_call tz (CreateServer server) db = snd (DatabaseStorage_createServer server db)"
| "DatabaseStorage_call tz (CreateChannel channel) db = snd (DatabaseStorage_createChannel channel db)"
| "DatabaseStorage_call tz (CreateMessage message) db = snd (DatabaseStorage_createMessage message db)"
| "DatabaseStorage_call tz (DeleteOldMessages now) db = snd (DatabaseStorage_deleteOldMessages tz now db)"
| "DatabaseStorage_call tz (UpdateBotStatus online started) db = snd (DatabaseStorage_updateBotStatus online started db)"

text \<open>The counters of a status row against the three collections.\<close>

definition counts_live ::
  "BotStatus \<Rightarrow> (string, DiscordServer) alist \<Rightarrow> (string, DiscordChannel) alist
     \<Rightarrow> (string, DiscordMessage) alist \<Rightarrow> bool" where
  "counts_live status servers channels messages =
     (servers_count status = Map_size servers \<and>
      channels_count status = Map_size channels \<and>
      messages_count status = Map_size messages)"

definition MemStorage_counts_live :: "MemStorage \<Rightarrow> bool" where
  "MemStorage_counts_live st =
     counts_live (botStatusRecord st) (discordServers st) (discordChannels st) (discordMessages st)"

definition DatabaseStorage_counts_live :: "Database \<Rightarrow> bool" where
  "DatabaseStorage_counts_live db =
     (case tbl_botStatus db of
        None \<Rightarrow> False
      | Some status \<Rightarrow>
          counts_live status (tbl_discordServers db) (tbl_discordChannels db) (tbl_discordMessages db))"

section \<open>Concrete inputs\<close>

definition msg_original :: DiscordMessage where
  "msg_original =
     \<lparr>msg_id = ''1'', msg_server_id = ''s'', msg_channel_id = ''c'', msg_author_id = ''a'',
      msg_author_username = ''ann'', msg_author_discriminator = None,
      msg_content = ''original'', msg_created_at = 0\<rparr>"

definition msg_replayed :: DiscordMessage where
  "msg_replayed = msg_original\<lparr>msg_content := ''replayed''\<rparr>"

definition srv_first :: DiscordServer where
  "srv_first = \<lparr>srv_id = ''1'', srv_name = ''guild'', srv_icon = None, srv_joined_at = 100\<rparr>"

definition srv_resync :: DiscordServer where
  "srv_resync = \<lparr>srv_id = ''1'', srv_name = ''renamed'', srv_icon = None, srv_joined_at = 200\<rparr>"

definition ch_first :: DiscordChannel where
  "ch_first = \<lparr>ch_id = ''7'', ch_server_id = ''1'', ch_name = ''general'', ch_type = ''0''\<rparr>"

definition ch_resync :: DiscordChannel where
  "ch_resync = \<lparr>ch_id = ''7'', ch_server_id = ''2'', ch_name = ''talk'', ch_type = ''5''\<rparr>"

definition bot_connected :: DiscordBot where
  "bot_connected = \<lparr>startTime = Some 0, isConnected = True, client_isReady = True\<rparr>"

definition bot_not_ready :: DiscordBot where
  "bot_not_ready = \<lparr>startTime = None, isConnected = False, client_isReady = False\<rparr>"

text \<open>
  Two time zones. In \<open>utc_zone\<close> local time is UTC. \<open>berlin_zone\<close> has the rules of
  Europe/Berlin from April 2026 to March 2027: two hours ahead of UTC until the clocks
  go back at 2026-10-25T01:00:00Z (1792890000000), one hour ahead from then on; a local
  time that occurs twice is read with the offset before the change.
\<close>

definition utc_zone :: TimeZone where
  "utc_zone = \<lparr>LocalTZA_utc = (\<lambda>t. 0), LocalTZA_local = (\<lambda>t. 0)\<rparr>"

definition berlin_zone :: TimeZone where
  "berlin_zone =
     \<lparr>LocalTZA_utc = (\<lambda>t. if t < 1792890000000 then 7200000 else 3600000),
      LocalTZA_local = (\<lambda>t. if t - 7200000 < 1792890000000 then 7200000 else 3600000)\<rparr>"

text \<open>
  A store for the retention scenario at the time \<open>sweep_now\<close>, which is
  2026-11-03T12:00:00Z: messages created 15 days, 14 days and one second, and 13 days
  before it.
\<close>

definition sweep_now :: int where
  "sweep_now = 1793707200000"

definition msg_15d :: DiscordMessage where
  "msg_15d = msg_original\<lparr>msg_id := ''15'', msg_created_at := sweep_now - 15 * 86400000\<rparr>"

definition msg_14d1s :: DiscordMessage where
  "msg_14d1s = msg_original\<lparr>msg_id := ''14'', msg_created_at := sweep_now - 14 * 86400000 - 1000\<rparr>"

definition msg_13d :: DiscordMessage where
  "msg_13d = msg_original\<lparr>msg_id := ''13'', msg_created_at := sweep_now - 13 * 86400000\<rparr>"

definition retention_calls :: "operation list" where
  "retention_calls = [CreateMessage msg_15d, CreateMessage msg_14d1s, CreateMessage msg_13d]"

text \<open>Stores of \<open>n\<close> messages, the message \<open>i\<close> created at the time \<open>i\<close>.\<close>

definition msg_numbered :: "nat \<Rightarrow> DiscordMessage" where
  "msg_numbered i = msg_original\<lparr>msg_id := toString (int i), msg_created_at := int i\<rparr>"

definition numbered_calls :: "nat \<Rightarrow> operation list" where
  "numbered_calls n = map (\<lambda>i. CreateMessage (msg_numbered i)) [0..<n]"

definition msg_long :: DiscordMessage where
  "msg_long = msg_original\<lparr>msg_content := replicate 101 CHR ''a''\<rparr>"

definition msg_abc :: DiscordMessage where
  "msg_abc = msg_original\<lparr>msg_author_username := ''bob'', msg_content := ''abc''\<rparr>"

definition search_a_c :: MessageOptions where
  "search_a_c =
     \<lparr>opt_serverId = None, opt_channelId = None, opt_search = Some ''a_c'',
      opt_limit = None, opt_offset = None\<rparr>"

definition log_entry :: InsertCommandLog where
  "log_entry = \<lparr>ins_command = ''!help'', ins_response = ''ok'', ins_executed_at = 0\<rparr>"

text \<open>Calls of \<open>createCommandLog\<close> one after the other.\<close>

definition MemStorage_log_all :: "InsertCommandLog list \<Rightarrow> MemStorage \<Rightarrow> MemStorage" where
  "MemStorage_log_all logs st = fold (\<lambda>log s. snd (MemStorage_createCommandLog log s)) logs st"

definition DatabaseStorage_log_all :: "InsertCommandLog list \<Rightarrow> Database \<Rightarrow> Database" where
  "DatabaseStorage_log_all logs db = fold (\<lambda>log d. snd (DatabaseStorage_createCommandLog log d)) logs db"

section \<open>The uptime format in the words of the specification\<close>

text \<open>
  The specification's wording of \<open>getUptime\<close>: of days, hours and minutes, the largest
  two units that are not zero. It is stated here to be compared with the program's
  \<open>getUptime\<close>; it is not part of the program.
\<close>

definition two_largest_units :: "int \<Rightarrow> string" where
  "two_largest_units uptimeMs =
     (let days = uptimeMs div (1000 * 60 * 60 * 24);
          hours = js_rem uptimeMs (1000 * 60 * 60 * 24) div (1000 * 60 * 60);
          minutes = js_rem uptimeMs (1000 * 60 * 60) div (1000 * 60);
          shown = take 2 (filter (\<lambda>(v, u). v \<noteq> 0) [(days, ''d''), (hours, ''h''), (minutes, ''m'')])
      in if shown = [] then ''0m'' else join '' '' (map (\<lambda>(v, u). toString v @ u) shown))"

chapter \<open>Properties\<close>

section \<open>Maps in insertion order\<close>

lemma Map_size_update_absent:
  "DAList.lookup m k = None \<Longrightarrow> Map_size (DAList.update k v m) = Map_size m + 1"
  unfolding Map_size_def
  apply transfer
  subgoal for m k v
    by (induction m) (auto split: if_splits)
  done

lemma Map_size_update_present:
  "DAList.lookup m k = Some w \<Longrightarrow> Map_size (DAList.update k v m) = Map_size m"
  unfolding Map_size_def
  apply transfer
  subgoal for m k w v
    by (induction m) (auto split: if_splits)
  done

lemma fold_delete_filter:
  "fold AList.delete ks xs = filter (\<lambda>p. fst p \<notin> set ks) xs"
proof (induction ks arbitrary: xs)
  case Nil
  then show ?case by simp
next
  case (Cons k ks)
  have "AList.delete k xs = filter (\<lambda>p. fst p \<noteq> k) xs"
    by (induction xs) auto
  with Cons show ?case by (simp add: conj_commute)
qed

lemma impl_of_fold_delete:
  "DAList.impl_of (fold DAList.delete ks m) = fold AList.delete ks (DAList.impl_of m)"
  by (induction ks arbitrary: m) (simp_all add: DAList.delete.rep_eq)

lemma distinct_key_filter:
  assumes "distinct (map fst xs)"
  shows "filter (\<lambda>p. fst p \<notin> set (map fst (filter P xs))) xs = filter (\<lambda>p. \<not> P p) xs"
proof (rule filter_cong [OF refl])
  fix p assume p: "p \<in> set xs"
  have "fst p \<in> fst ` {q \<in> set xs. P q} \<longleftrightarrow> P p"
  proof
    assume "fst p \<in> fst ` {q \<in> set xs. P q}"
    then obtain q where q: "q \<in> set xs" "P q" "fst q = fst p" by auto
    from assms p q(1) q(3) have "q = p"
      by (metis eq_key_imp_eq_value prod.collapse)
    with q show "P p" by simp
  next
    assume "P p" with p show "fst p \<in> fst ` {q \<in> set xs. P q}" by auto
  qed
  then show "(fst p \<notin> set (map fst (filter P xs))) = (\<not> P p)" by simp
qed

text \<open>
  Deleting, one key after the other, the keys of the entries that satisfy \<open>P\<close> leaves
  the entries that do not, in their order.
\<close>

lemma Map_delete_all:
  "DAList.impl_of (fold DAList.delete (map fst (filter P (DAList.impl_of m))) m)
     = filter (\<lambda>p. \<not> P p) (DAList.impl_of m)"
  by (simp add: impl_of_fold_delete fold_delete_filter distinct_key_filter del: set_map)

lemma count_key_distinct:
  "distinct (map fst xs) \<Longrightarrow> map_of xs k = Some v \<Longrightarrow> length (filter (\<lambda>p. fst p = k) xs) = 1"
proof (induction xs)
  case Nil
  then show ?case by simp
next
  case (Cons p ps)
  show ?case
  proof (cases "fst p = k")
    case True
    with Cons.prems have "k \<notin> fst ` set ps" by auto
    then have "filter (\<lambda>p. fst p = k) ps = []" by (auto simp: filter_empty_conv)
    with True show ?thesis by simp
  next
    case False
    with Cons show ?thesis by (cases p) auto
  qed
qed

lemma Map_count_key:
  "DAList.lookup m k = Some v \<Longrightarrow> length (filter (\<lambda>p. fst p = k) (DAList.impl_of m)) = 1"
  by (rule count_key_distinct [where v = v]) (simp_all add: DAList.lookup.rep_eq)

section \<open>Storing a message twice (C1)\<close>

text \<open>
  \<open>MemStorage.createMessage\<close> sets the map entry whatever the map holds: the message
  passed is returned and is what the map holds afterwards.
\<close>

lemma MemStorage_createMessage_stores:
  "fst (MemStorage_createMessage m st) = m \<and>
   MemStorage_getMessage (msg_id m) (snd (MemStorage_createMessage m st)) = Some m"
  by (simp add: MemStorage_createMessage_def MemStorage_getMessage_def Let_def)

text \<open>
  \<open>DatabaseStorage.createMessage\<close> on a stored id returns the stored row and leaves the
  database as it is, with one row of that id.
\<close>

lemma DatabaseStorage_createMessage_idempotent:
  assumes "DatabaseStorage_getMessage (msg_id m) db = Some existing"
  shows "DatabaseStorage_createMessage m db = (existing, db) \<and>
         length (filter (\<lambda>p. fst p = msg_id m) (DAList.impl_of (tbl_discordMessages db))) = 1"
  using assms Map_count_key [of "tbl_discordMessages db" "msg_id m" existing]
  by (simp add: DatabaseStorage_createMessage_def DatabaseStorage_getMessage_def)

lemma DatabaseStorage_stored_original:
  "DatabaseStorage_getMessage (msg_id msg_replayed)
     (snd (DatabaseStorage_createMessage msg_original DatabaseStorage_new)) = Some msg_original"
  by (simp add: DatabaseStorage_createMessage_def DatabaseStorage_getMessage_def
      DatabaseStorage_new_def updateMessageCount_def Let_def msg_original_def msg_replayed_def)

lemma DatabaseStorage_createMessage_replay:
  "DatabaseStorage_createMessage msg_replayed
     (snd (DatabaseStorage_createMessage msg_original DatabaseStorage_new))
     = (msg_original, snd (DatabaseStorage_createMessage msg_original DatabaseStorage_new))"
  using DatabaseStorage_createMessage_idempotent [OF DatabaseStorage_stored_original] by simp

text \<open>
  Claim C1: when a message with the id of \<open>m\<close> is stored, \<open>createMessage m\<close> returns the
  stored record with its original content and changes nothing, in the in-memory and in
  the database implementation. The database implementation does so (lemma
  \<open>DatabaseStorage_createMessage_idempotent\<close>). The in-memory implementation does not:
  on the store that holds \<open>msg_original\<close> under id \<open>1\<close>, storing \<open>msg_replayed\<close> (the same
  id, another content) returns \<open>msg_replayed\<close> and leaves \<open>msg_replayed\<close> under id \<open>1\<close>.
\<close>

theorem MemStorage_createMessage_overwrites:
  "MemStorage_getMessage ''1'' (snd (MemStorage_createMessage msg_original MemStorage_new))
     = Some msg_original \<and>
   fst (MemStorage_createMessage msg_replayed (snd (MemStorage_createMessage msg_original MemStorage_new)))
     = msg_replayed \<and>
   MemStorage_getMessage ''1''
     (snd (MemStorage_createMessage msg_replayed (snd (MemStorage_createMessage msg_original MemStorage_new))))
     = Some msg_replayed \<and>
   msg_content msg_replayed \<noteq> msg_content msg_original"
  by (simp add: MemStorage_createMessage_def MemStorage_getMessage_def Let_def
      msg_original_def msg_replayed_def)

section \<open>Upserts of servers and channels (C6)\<close>

text \<open>
  \<open>DatabaseStorage.createServer\<close>: on a stored id the row keeps every column but \<open>name\<close>
  and \<open>icon\<close> and the status row is untouched; on a new id the server is inserted and
  \<open>servers_count\<close> is the new number of rows; no other row changes.
\<close>

lemma DatabaseStorage_createServer_upsert:
  "DatabaseStorage_getServer (srv_id s) db = Some existing \<Longrightarrow>
     DatabaseStorage_getServer (srv_id s) (snd (DatabaseStorage_createServer s db))
       = Some (existing\<lparr>srv_name := srv_name s, srv_icon := srv_icon s\<rparr>) \<and>
     fst (DatabaseStorage_createServer s db) = existing\<lparr>srv_name := srv_name s, srv_icon := srv_icon s\<rparr> \<and>
     srv_joined_at (fst (DatabaseStorage_createServer s db)) = srv_joined_at existing \<and>
     srv_id (fst (DatabaseStorage_createServer s db)) = srv_id existing \<and>
     tbl_botStatus (snd (DatabaseStorage_createServer s db)) = tbl_botStatus db"
  "DatabaseStorage_getServer (srv_id s) db = None \<Longrightarrow>
     DatabaseStorage_getServer (srv_id s) (snd (DatabaseStorage_createServer s db)) = Some s \<and>
     map_option servers_count (tbl_botStatus (snd (DatabaseStorage_createServer s db)))
       = map_option (\<lambda>b. Map_size (tbl_discordServers db) + 1) (tbl_botStatus db)"
  "k \<noteq> srv_id s \<Longrightarrow>
     DatabaseStorage_getServer k (snd (DatabaseStorage_createServer s db)) = DatabaseStorage_getServer k db"
  by (auto simp: DatabaseStorage_createServer_def DatabaseStorage_getServer_def Let_def
      updateServerCount_def Map_size_update_absent option.map_comp comp_def split: option.splits)

lemma DatabaseStorage_createChannel_upsert:
  "DatabaseStorage_getChannel (ch_id c) db = Some existing \<Longrightarrow>
     DatabaseStorage_getChannel (ch_id c) (snd (DatabaseStorage_createChannel c db))
       = Some (existing\<lparr>ch_name := ch_name c, ch_type := ch_type c\<rparr>) \<and>
     fst (DatabaseStorage_createChannel c db) = existing\<lparr>ch_name := ch_name c, ch_type := ch_type c\<rparr> \<and>
     ch_server_id (fst (DatabaseStorage_createChannel c db)) = ch_server_id existing \<and>
     tbl_botStatus (snd (DatabaseStorage_createChannel c db)) = tbl_botStatus db"
  "DatabaseStorage_getChannel (ch_id c) db = None \<Longrightarrow>
     DatabaseStorage_getChannel (ch_id c) (snd (DatabaseStorage_createChannel c db)) = Some c \<and>
     map_option channels_count (tbl_botStatus (snd (DatabaseStorage_createChannel c db)))
       = map_option (\<lambda>b. Map_size (tbl_discordChannels db) + 1) (tbl_botStatus db)"
  "k \<noteq> ch_id c \<Longrightarrow>
     DatabaseStorage_getChannel k (snd (DatabaseStorage_createChannel c db)) = DatabaseStorage_getChannel k db"
  by (auto simp: DatabaseStorage_createChannel_def DatabaseStorage_getChannel_def Let_def
      updateChannelCount_def Map_size_update_absent option.map_comp comp_def split: option.splits)

text \<open>
  Claim C6: on a stored id, \<open>createServer\<close> updates \<open>name\<close> and \<open>icon\<close> only and
  \<open>createChannel\<close> \<open>name\<close> and \<open>type\<close> only, every other stored field (\<open>joined_at\<close> in
  particular) staying as it was. The database implementation does so (the two lemmas
  above). The in-memory implementation replaces the whole record: after \<open>srv_first\<close>
  (joined at 100) the resync with \<open>srv_resync\<close> (same id, joined at 200) leaves
  \<open>joined_at = 200\<close> stored, and after \<open>ch_first\<close> (server \<open>1\<close>) the resync with
  \<open>ch_resync\<close> (same id, server \<open>2\<close>) leaves \<open>server_id = 2\<close> stored.
\<close>

theorem MemStorage_upsert_replaces_record:
  "MemStorage_getServer ''1'' (snd (MemStorage_createServer srv_first MemStorage_new)) = Some srv_first \<and>
   MemStorage_getServer ''1''
     (snd (MemStorage_createServer srv_resync (snd (MemStorage_createServer srv_first MemStorage_new))))
     = Some srv_resync \<and>
   srv_joined_at srv_resync \<noteq> srv_joined_at srv_first \<and>
   MemStorage_getChannel ''7'' (snd (MemStorage_createChannel ch_first MemStorage_new)) = Some ch_first \<and>
   MemStorage_getChannel ''7''
     (snd (MemStorage_createChannel ch_resync (snd (MemStorage_createChannel ch_first MemStorage_new))))
     = Some ch_resync \<and>
   ch_server_id ch_resync \<noteq> ch_server_id ch_first"
  by (simp add: MemStorage_createServer_def MemStorage_getServer_def MemStorage_createChannel_def
      MemStorage_getChannel_def Let_def srv_first_def srv_resync_def ch_first_def ch_resync_def)

section \<open>The counters of the status row (C2)\<close>

lemma MemStorage_call_counts_live:
  "MemStorage_counts_live st \<Longrightarrow> MemStorage_counts_live (MemStorage_call tz call st)"
  by (cases call)
     (simp_all add: MemStorage_counts_live_def counts_live_def MemStorage_createServer_def
        MemStorage_createChannel_def MemStorage_createMessage_def MemStorage_deleteOldMessages_def
        MemStorage_updateBotStatus_def MemStorage_calculateStorageUsage_def Let_def)

lemma DatabaseStorage_call_counts_live:
  "DatabaseStorage_counts_live db \<Longrightarrow> DatabaseStorage_counts_live (DatabaseStorage_call tz call db)"
  by (cases call)
     (auto simp: DatabaseStorage_counts_live_def counts_live_def DatabaseStorage_createServer_def
        DatabaseStorage_createChannel_def DatabaseStorage_createMessage_def
        DatabaseStorage_deleteOldMessages_def DatabaseStorage_updateBotStatus_def
        DatabaseStorage_getServer_def DatabaseStorage_getChannel_def DatabaseStorage_getMessage_def
        updateServerCount_def updateChannelCount_def updateMessageCount_def
        Map_size_update_present Let_def split: option.splits)

lemma MemStorage_fold_counts_live:
  "MemStorage_counts_live st \<Longrightarrow> MemStorage_counts_live (fold (MemStorage_call tz) calls st)"
  by (induction calls arbitrary: st) (simp_all add: MemStorage_call_counts_live)

lemma DatabaseStorage_fold_counts_live:
  "DatabaseStorage_counts_live db \<Longrightarrow> DatabaseStorage_counts_live (fold (DatabaseStorage_call tz) calls db)"
  by (induction calls arbitrary: db) (simp_all add: DatabaseStorage_call_counts_live)

text \<open>
  Claim C2: after every completed mutating repository call the counters
  \<open>servers_count\<close>, \<open>channels_count\<close> and \<open>messages_count\<close> of the status equal the
  number of stored servers, channels and messages. Stated for every sequence of calls
  on a new repository, in both implementations and in every time zone of the process;
  as every prefix of a sequence is a sequence, the counters are right after each call.
\<close>

theorem counts_equal_live_cardinality:
  "MemStorage_counts_live (fold (MemStorage_call tz) calls MemStorage_new) \<and>
   DatabaseStorage_counts_live (fold (DatabaseStorage_call tz) calls DatabaseStorage_new)"
proof
  have "MemStorage_counts_live MemStorage_new"
    by (simp add: MemStorage_counts_live_def counts_live_def MemStorage_new_def initial_status_def
        Map_size_def DAList.empty.rep_eq)
  then show "MemStorage_counts_live (fold (MemStorage_call tz) calls MemStorage_new)"
    by (rule MemStorage_fold_counts_live)
  have "DatabaseStorage_counts_live DatabaseStorage_new"
    by (simp add: DatabaseStorage_counts_live_def counts_live_def DatabaseStorage_new_def
        initial_status_def Map_size_def DAList.empty.rep_eq)
  then show "DatabaseStorage_counts_live (fold (DatabaseStorage_call tz) calls DatabaseStorage_new)"
    by (rule DatabaseStorage_fold_counts_live)
qed

section \<open>The retention sweep (C3)\<close>

text \<open>
  The cutoff of the sweep: the local time of the call moved back by fourteen days of
  86400000 milliseconds, read back as an instant with the offset in force at that
  local time.
\<close>

lemma sub_weeks_two:
  "sub_weeks tz now 2 =
     now + LocalTZA_utc tz now - 14 * 86400000
       - LocalTZA_local tz (now + LocalTZA_utc tz now - 14 * 86400000)"
  by (simp add: sub_weeks_def addDays_def UTC_def LocalTime_def msPerDay_def)

lemma MemStorage_sweep:
  "DAList.impl_of (discordMessages (snd (MemStorage_deleteOldMessages tz now st)))
     = filter (\<lambda>(k, m). \<not> msg_created_at m < sub_weeks tz now 2) (DAList.impl_of (discordMessages st))"
  "fst (MemStorage_deleteOldMessages tz now st)
     = int (length (filter (\<lambda>(k, m). msg_created_at m < sub_weeks tz now 2)
                      (DAList.impl_of (discordMessages st))))"
  by (simp_all add: MemStorage_deleteOldMessages_def Let_def Map_delete_all case_prod_unfold)

lemma DatabaseStorage_sweep:
  "DAList.impl_of (tbl_discordMessages (snd (DatabaseStorage_deleteOldMessages tz now db)))
     = filter (\<lambda>(k, m). \<not> msg_created_at m < sub_weeks tz now 2) (DAList.impl_of (tbl_discordMessages db))"
  "fst (DatabaseStorage_deleteOldMessages tz now db)
     = int (length (filter (\<lambda>(k, m). msg_created_at m < sub_weeks tz now 2)
                      (DAList.impl_of (tbl_discordMessages db))))"
  by (simp_all add: DatabaseStorage_deleteOldMessages_def Let_def updateMessageCount_def
      DAList.filter.rep_eq case_prod_unfold)

lemma retention_store_messages:
  "DAList.impl_of (discordMessages (fold (MemStorage_call tz) retention_calls MemStorage_new))
     = [(''15'', msg_15d), (''14'', msg_14d1s), (''13'', msg_13d)]"
  by (simp add: retention_calls_def MemStorage_new_def MemStorage_createMessage_def Let_def
      msg_15d_def msg_14d1s_def msg_13d_def msg_original_def DAList.update.rep_eq DAList.empty.rep_eq)

lemma retention_database_messages:
  "DAList.impl_of (tbl_discordMessages (fold (DatabaseStorage_call tz) retention_calls DatabaseStorage_new))
     = [(''15'', msg_15d), (''14'', msg_14d1s), (''13'', msg_13d)]"
  by (simp add: retention_calls_def DatabaseStorage_new_def DatabaseStorage_createMessage_def
      DatabaseStorage_getMessage_def updateMessageCount_def Let_def
      msg_15d_def msg_14d1s_def msg_13d_def msg_original_def DAList.update.rep_eq
      DAList.empty.rep_eq DAList.lookup.rep_eq)

text \<open>The cutoff of a sweep at \<open>sweep_now\<close> in the two zones.\<close>

lemma sweep_cutoff_utc: "sub_weeks utc_zone sweep_now 2 = sweep_now - 14 * 86400000"
  by (simp add: sub_weeks_two utc_zone_def)

lemma sweep_cutoff_berlin: "sub_weeks berlin_zone sweep_now 2 = sweep_now - 14 * 86400000 - 3600000"
  by (simp add: sub_weeks_two berlin_zone_def sweep_now_def)

text \<open>
  The scenario of the specification in a process whose local time is UTC: of the
  messages created 15 days, 14 days and one second, and 13 days before the sweep, the
  first two are deleted and the third is kept, in both implementations.
\<close>

lemma retention_scenario:
  "fst (MemStorage_deleteOldMessages utc_zone sweep_now
          (fold (MemStorage_call utc_zone) retention_calls MemStorage_new)) = 2 \<and>
   Map_values (discordMessages
     (snd (MemStorage_deleteOldMessages utc_zone sweep_now
             (fold (MemStorage_call utc_zone) retention_calls MemStorage_new))))
     = [msg_13d] \<and>
   fst (DatabaseStorage_deleteOldMessages utc_zone sweep_now
          (fold (DatabaseStorage_call utc_zone) retention_calls DatabaseStorage_new)) = 2 \<and>
   Map_values (tbl_discordMessages
     (snd (DatabaseStorage_deleteOldMessages utc_zone sweep_now
             (fold (DatabaseStorage_call utc_zone) retention_calls DatabaseStorage_new))))
     = [msg_13d]"
  unfolding Map_values_def MemStorage_sweep DatabaseStorage_sweep retention_store_messages
    retention_database_messages sweep_cutoff_utc
  by (simp add: msg_15d_def msg_14d1s_def msg_13d_def sweep_now_def)

text \<open>
  Claim C3, as the program has it: \<open>deleteOldMessages\<close> deletes exactly the stored
  messages whose \<open>created_at\<close> is strictly before the cutoff, and returns the number of
  messages it deleted: in both implementations the messages left are those not before
  the cutoff, in their order, and the number returned is the number of the others. The
  cutoff is the instant with the local time of the call fourteen calendar days
  earlier, in the time zone of the process. It is now minus 14 days of 24 hours when
  the offset from UTC in force at that local time is the offset at the time of the
  call.
\<close>

theorem deleteOldMessages_cutoff:
  "DAList.impl_of (discordMessages (snd (MemStorage_deleteOldMessages tz now st)))
     = filter (\<lambda>(k, m). \<not> msg_created_at m < sub_weeks tz now 2) (DAList.impl_of (discordMessages st)) \<and>
   fst (MemStorage_deleteOldMessages tz now st)
     = int (length (filter (\<lambda>(k, m). msg_created_at m < sub_weeks tz now 2)
                      (DAList.impl_of (discordMessages st)))) \<and>
   DAList.impl_of (tbl_discordMessages (snd (DatabaseStorage_deleteOldMessages tz now db)))
     = filter (\<lambda>(k, m). \<not> msg_created_at m < sub_weeks tz now 2) (DAList.impl_of (tbl_discordMessages db)) \<and>
   fst (DatabaseStorage_deleteOldMessages tz now db)
     = int (length (filter (\<lambda>(k, m). msg_created_at m < sub_weeks tz now 2)
                      (DAList.impl_of (tbl_discordMessages db)))) \<and>
   sub_weeks tz now 2 =
     now + LocalTZA_utc tz now - 14 * 86400000
       - LocalTZA_local tz (now + LocalTZA_utc tz now - 14 * 86400000) \<and>
   (LocalTZA_local tz (now + LocalTZA_utc tz now - 14 * 86400000) = LocalTZA_utc tz now
      \<longrightarrow> sub_weeks tz now 2 = now - 14 * 86400000)"
  by (simp add: MemStorage_sweep DatabaseStorage_sweep sub_weeks_two)

text \<open>
  The theorem on the scenario of the specification, in a process whose local time is
  UTC, at 2026-11-03T12:00:00Z: the messages created 15 days and 14 days and one
  second before the sweep are deleted, the message created 13 days before it is kept.
\<close>

theorem deleteOldMessages_cutoff_witness:
  "LocalTZA_local utc_zone (sweep_now + LocalTZA_utc utc_zone sweep_now - 14 * 86400000)
     = LocalTZA_utc utc_zone sweep_now \<and>
   sub_weeks utc_zone sweep_now 2 = sweep_now - 14 * 86400000 \<and>
   fst (MemStorage_deleteOldMessages utc_zone sweep_now
          (fold (MemStorage_call utc_zone) retention_calls MemStorage_new)) = 2 \<and>
   Map_values (discordMessages
     (snd (MemStorage_deleteOldMessages utc_zone sweep_now
             (fold (MemStorage_call utc_zone) retention_calls MemStorage_new))))
     = [msg_13d] \<and>
   fst (DatabaseStorage_deleteOldMessages utc_zone sweep_now
          (fold (DatabaseStorage_call utc_zone) retention_calls DatabaseStorage_new)) = 2 \<and>
   Map_values (tbl_discordMessages
     (snd (DatabaseStorage_deleteOldMessages utc_zone sweep_now
             (fold (DatabaseStorage_call utc_zone) retention_calls DatabaseStorage_new))))
     = [msg_13d]"
proof -
  have z: "LocalTZA_local utc_zone (sweep_now + LocalTZA_utc utc_zone sweep_now - 14 * 86400000)
     = LocalTZA_utc utc_zone sweep_now"
    by (simp add: utc_zone_def)
  note T = deleteOldMessages_cutoff
    [of utc_zone sweep_now "fold (MemStorage_call utc_zone) retention_calls MemStorage_new"
        "fold (DatabaseStorage_call utc_zone) retention_calls DatabaseStorage_new"]
  from z T have c: "sub_weeks utc_zone sweep_now 2 = sweep_now - 14 * 86400000"
    by (simp only: simp_thms)
  from T have
    "DAList.impl_of (discordMessages (snd (MemStorage_deleteOldMessages utc_zone sweep_now
         (fold (MemStorage_call utc_zone) retention_calls MemStorage_new))))
       = filter (\<lambda>(k, m). \<not> msg_created_at m < sweep_now - 14 * 86400000)
           [(''15'', msg_15d), (''14'', msg_14d1s), (''13'', msg_13d)]"
    "fst (MemStorage_deleteOldMessages utc_zone sweep_now
         (fold (MemStorage_call utc_zone) retention_calls MemStorage_new))
       = int (length (filter (\<lambda>(k, m). msg_created_at m < sweep_now - 14 * 86400000)
           [(''15'', msg_15d), (''14'', msg_14d1s), (''13'', msg_13d)]))"
    "DAList.impl_of (tbl_discordMessages (snd (DatabaseStorage_deleteOldMessages utc_zone sweep_now
         (fold (DatabaseStorage_call utc_zone) retention_calls DatabaseStorage_new))))
       = filter (\<lambda>(k, m). \<not> msg_created_at m < sweep_now - 14 * 86400000)
           [(''15'', msg_15d), (''14'', msg_14d1s), (''13'', msg_13d)]"
    "fst (DatabaseStorage_deleteOldMessages utc_zone sweep_now
         (fold (DatabaseStorage_call utc_zone) retention_calls DatabaseStorage_new))
       = int (length (filter (\<lambda>(k, m). msg_created_at m < sweep_now - 14 * 86400000)
           [(''15'', msg_15d), (''14'', msg_14d1s), (''13'', msg_13d)]))"
    unfolding c retention_store_messages retention_database_messages by simp_all
  then show ?thesis
    using z c
    by (simp add: Map_values_def msg_15d_def msg_14d1s_def msg_13d_def sweep_now_def)
qed

text \<open>
  The same sweep of the same messages in a process whose time zone is Europe/Berlin,
  where the clocks went back on 2026-10-25: fourteen calendar days before the sweep the
  offset was two hours, so that the cutoff is one hour before now minus 14 days. The
  message created 14 days and one second before the sweep is older than now minus 14
  days, and the in-memory implementation keeps it; one message is deleted.
\<close>

theorem deleteOldMessages_keeps_message_older_than_14_days:
  "msg_created_at msg_14d1s < sweep_now - 14 * 86400000 \<and>
   fst (MemStorage_deleteOldMessages berlin_zone sweep_now
          (fold (MemStorage_call berlin_zone) retention_calls MemStorage_new)) = 1 \<and>
   Map_values (discordMessages
     (snd (MemStorage_deleteOldMessages berlin_zone sweep_now
             (fold (MemStorage_call berlin_zone) retention_calls MemStorage_new))))
     = [msg_14d1s, msg_13d]"
  unfolding Map_values_def MemStorage_sweep retention_store_messages sweep_cutoff_berlin
  by (simp add: msg_15d_def msg_14d1s_def msg_13d_def sweep_now_def)

section \<open>Decimal numerals\<close>

lemma digit_cases:
  "d < (10::nat) \<Longrightarrow> d = 0 \<or> d = 1 \<or> d = 2 \<or> d = 3 \<or> d = 4 \<or> d = 5 \<or> d = 6 \<or> d = 7 \<or> d = 8 \<or> d = 9"
  by arith

lemma digit_value_digit_char:
  assumes "d < 10"
  shows "digit_value 10 (digit_char d) = Some d"
  using digit_cases [OF assms]
  by (elim disjE) (simp_all add: digit_value_def digit_table_def digit_char_def)

lemma digit_value_is_digit: "digit_value 10 c \<noteq> None \<Longrightarrow> is_digit c"
  by (auto simp: digit_value_def digit_table_def is_digit_def split: option.splits if_splits)

text \<open>A digit is neither the first byte of a white space character nor a sign.\<close>

lemma digit_char_plain:
  assumes "d < 10"
  shows "digit_char d \<notin> set (map hd white_space) \<and> digit_char d \<noteq> CHR ''-'' \<and> digit_char d \<noteq> CHR ''+''
     \<and> digit_char d \<noteq> CHR ''x'' \<and> digit_char d \<noteq> CHR ''X''"
  using digit_cases [OF assms]
  by (elim disjE) (simp_all add: white_space_def digit_char_def)

lemma digit_char_zero:
  assumes "d < 10" "d \<noteq> 0"
  shows "digit_char d \<noteq> CHR ''0''"
  using digit_cases [OF assms(1)] assms(2)
  by (elim disjE) (simp_all add: digit_char_def)

lemma trim_start_Nil: "trim_start [] = []"
  by (simp add: trim_start.simps [of "[]"] white_space_def)

lemma trim_start_plain:
  assumes "c \<notin> set (map hd white_space)"
  shows "trim_start (c # cs) = c # cs"
proof -
  have "\<not> starts_with (c # cs) w" if "w \<in> set white_space" for w
  proof (cases w)
    case Nil
    with that show ?thesis by (simp add: white_space_def)
  next
    case (Cons a as)
    with that have "a \<in> set (map hd white_space)" by force
    with assms have "a \<noteq> c" by blast
    with Cons show ?thesis by simp
  qed
  then have "find (starts_with (c # cs)) white_space = None"
    by (simp add: find_None_iff)
  then show ?thesis by (simp add: trim_start.simps [of "c # cs"])
qed

lemma string_of_nat_digits:
  "c \<in> set (string_of_nat n) \<Longrightarrow> \<exists>d<10. c = digit_char d"
proof (induction n rule: string_of_nat.induct)
  case (1 n)
  show ?case
  proof (cases "n < 10")
    case True
    with "1.prems" show ?thesis by (auto simp: string_of_nat.simps [of n])
  next
    case False
    with "1.prems" have "c \<in> set (string_of_nat (n div 10)) \<or> c = digit_char (n mod 10)"
      by (auto simp: string_of_nat.simps [of n])
    then show ?thesis
    proof
      assume "c \<in> set (string_of_nat (n div 10))"
      with False "1.IH" show ?thesis by simp
    next
      assume "c = digit_char (n mod 10)"
      moreover have "n mod 10 < 10" by simp
      ultimately show ?thesis by blast
    qed
  qed
qed

lemma string_of_nat_nonempty: "string_of_nat n \<noteq> []"
  by (subst string_of_nat.simps) simp

lemma digits_value_snoc:
  "digits_value r (ds @ [c]) = digits_value r ds * r + the (digit_value r c)"
  by (simp add: digits_value_def)

lemma digits_value_string_of_nat: "digits_value 10 (string_of_nat n) = n"
proof (induction n rule: string_of_nat.induct)
  case (1 n)
  show ?case
  proof (cases "n < 10")
    case True
    then show ?thesis
      by (simp add: string_of_nat.simps [of n] digits_value_def digit_value_digit_char)
  next
    case False
    with "1.IH" have "digits_value 10 (string_of_nat (n div 10)) = n div 10" by simp
    with False show ?thesis
      by (simp add: string_of_nat.simps [of n] digits_value_snoc digit_value_digit_char)
  qed
qed

text \<open>
  The run of digits that \<open>parseInt\<close> reads from a decimal numeral followed by other text
  is the numeral, when the text does not go on with a digit.
\<close>

lemma takeWhile_string_of_nat_append:
  assumes "rest = [] \<or> \<not> is_digit (hd rest)"
  shows "takeWhile (\<lambda>c. digit_value 10 c \<noteq> None) (string_of_nat n @ rest) = string_of_nat n"
proof -
  have a: "digit_value 10 c \<noteq> None" if "c \<in> set (string_of_nat n)" for c
  proof -
    from that obtain d where "d < 10" "c = digit_char d" using string_of_nat_digits by blast
    then show ?thesis by (simp add: digit_value_digit_char)
  qed
  have b: "takeWhile (\<lambda>c. digit_value 10 c \<noteq> None) rest = []"
  proof (cases rest)
    case Nil
    then show ?thesis by simp
  next
    case (Cons r rs)
    with assms have "\<not> is_digit r" by simp
    with digit_value_is_digit [of r] have "digit_value 10 r = None" by blast
    with Cons show ?thesis by simp
  qed
  have "takeWhile (\<lambda>c. digit_value 10 c \<noteq> None) (string_of_nat n @ rest)
          = string_of_nat n @ takeWhile (\<lambda>c. digit_value 10 c \<noteq> None) rest"
    by (rule takeWhile_append2) (rule a)
  with b show ?thesis by simp
qed

lemma parse_digits_string_of_nat_append:
  assumes "rest = [] \<or> \<not> is_digit (hd rest)"
  shows "parse_digits 10 (string_of_nat n @ rest) = Some n"
  unfolding parse_digits_def takeWhile_string_of_nat_append [OF assms] Let_def
  by (simp add: string_of_nat_nonempty digits_value_string_of_nat)

lemma string_of_nat_two_digits:
  assumes "10 \<le> n"
  shows "\<exists>a b t. string_of_nat n = a # b # t"
proof -
  from assms have s: "string_of_nat n = string_of_nat (n div 10) @ [digit_char (n mod 10)]"
    by (simp add: string_of_nat.simps [of n])
  obtain a t where "string_of_nat (n div 10) = a # t"
    using string_of_nat_nonempty [of "n div 10"] by (cases "string_of_nat (n div 10)") auto
  with s show ?thesis by (cases t) auto
qed

lemma string_of_nat_no_hex_prefix:
  assumes "n = 0 \<longrightarrow> \<not> starts_with rest ''x'' \<and> \<not> starts_with rest ''X''"
  shows "\<not> starts_with (string_of_nat n @ rest) ''0x'' \<and> \<not> starts_with (string_of_nat n @ rest) ''0X''"
proof (cases "n < 10")
  case True
  then have s: "string_of_nat n = [digit_char n]"
    by (simp add: string_of_nat.simps [of n])
  show ?thesis
  proof (cases "n = 0")
    case True
    with assms s show ?thesis by (cases rest) simp_all
  next
    case False
    with \<open>n < 10\<close> have "digit_char n \<noteq> CHR ''0''" by (rule digit_char_zero)
    with s show ?thesis by simp
  qed
next
  case False
  then obtain a b t where s: "string_of_nat n = a # b # t"
    using string_of_nat_two_digits [of n] by auto
  then have "b \<in> set (string_of_nat n)" by simp
  then obtain d where "d < 10" "b = digit_char d" using string_of_nat_digits by blast
  with digit_char_plain [of d] have "b \<noteq> CHR ''x''" "b \<noteq> CHR ''X''" by simp_all
  with s show ?thesis by simp
qed

lemma parse_unsigned_string_of_nat_append:
  assumes "rest = [] \<or> \<not> is_digit (hd rest)"
    and "n = 0 \<longrightarrow> \<not> starts_with rest ''x'' \<and> \<not> starts_with rest ''X''"
  shows "parse_unsigned (string_of_nat n @ rest) = Some n"
  using string_of_nat_no_hex_prefix [OF assms(2)]
  by (simp add: parse_unsigned_def parse_digits_string_of_nat_append [OF assms(1)])

lemma string_of_nat_head:
  "\<exists>c cs. string_of_nat n = c # cs \<and> c \<notin> set (map hd white_space) \<and> c \<noteq> CHR ''-'' \<and> c \<noteq> CHR ''+''"
proof (cases "string_of_nat n")
  case Nil
  with string_of_nat_nonempty show ?thesis by blast
next
  case (Cons c cs)
  then have "c \<in> set (string_of_nat n)" by simp
  then obtain d where "d < 10" "c = digit_char d" using string_of_nat_digits by blast
  with digit_char_plain Cons show ?thesis by blast
qed

text \<open>
  \<open>parseInt\<close> reads the integer \<open>d\<close> from the decimal numeral of \<open>d\<close> followed by any text
  that does not go on with a digit, nor, after the numeral \<open>0\<close>, with \<open>x\<close> or \<open>X\<close>.
\<close>

lemma parseInt_prefix:
  assumes "rest = [] \<or> \<not> is_digit (hd rest)"
    and "d = 0 \<longrightarrow> \<not> starts_with rest ''x'' \<and> \<not> starts_with rest ''X''"
  shows "parseInt (toString d @ rest) = Some d"
proof (cases "d < 0")
  case True
  have "CHR ''-'' \<notin> set (map hd white_space)" by (simp add: white_space_def)
  then have t: "trim_start (CHR ''-'' # string_of_nat (nat (- d)) @ rest)
                  = CHR ''-'' # string_of_nat (nat (- d)) @ rest"
    by (rule trim_start_plain)
  from True have "nat (- d) \<noteq> 0" by simp
  then have "parse_unsigned (string_of_nat (nat (- d)) @ rest) = Some (nat (- d))"
    using parse_unsigned_string_of_nat_append [OF assms(1), of "nat (- d)"] by simp
  with True show ?thesis by (simp add: toString_def parseInt_def t)
next
  case False
  obtain c cs where h: "string_of_nat (nat d) = c # cs" "c \<notin> set (map hd white_space)"
      "c \<noteq> CHR ''-''" "c \<noteq> CHR ''+''"
    using string_of_nat_head by blast
  from h(2) have t: "trim_start (c # cs @ rest) = c # cs @ rest"
    by (rule trim_start_plain)
  from False assms(2) have "nat d = 0 \<longrightarrow> \<not> starts_with rest ''x'' \<and> \<not> starts_with rest ''X''"
    by simp
  then have "parse_unsigned (string_of_nat (nat d) @ rest) = Some (nat d)"
    by (rule parse_unsigned_string_of_nat_append [OF assms(1)])
  then have "parse_unsigned (c # cs @ rest) = Some (nat d)"
    using h(1) by simp
  with False h show ?thesis by (simp add: toString_def parseInt_def t)
qed

lemma parseInt_toString: "parseInt (toString d) = Some d"
  using parseInt_prefix [of "[]" d] by simp

text \<open>Without a digit to read, \<open>parseInt\<close> gives \<open>NaN\<close>.\<close>

lemma parseInt_Nil: "parseInt [] = None"
  by (simp add: parseInt_def trim_start_Nil)


lemma toString_inj:
  assumes "toString a = toString b"
  shows "a = b"
proof -
  have "Some a = parseInt (toString a)" by (simp only: parseInt_toString)
  also have "\<dots> = parseInt (toString b)" by (simp only: assms)
  also have "\<dots> = Some b" by (simp only: parseInt_toString)
  finally show ?thesis by simp
qed

section \<open>The uptime (C8)\<close>

lemma js_rem_nonneg: "0 \<le> a \<Longrightarrow> 0 < b \<Longrightarrow> js_rem a b = a mod b"
  by (cases "a = 0") (simp_all add: js_rem_def)

lemma mod_mult_div:
  fixes a b c :: int
  assumes "0 < b" "0 \<le> c"
  shows "(a mod (b * c)) div b = (a div b) mod c"
proof -
  have "a mod (b * c) = b * (a div b mod c) + a mod b"
    using assms by (simp add: zmod_zmult2_eq)
  moreover have "(b * (a div b mod c) + a mod b) div b = a div b mod c"
    using assms by simp
  ultimately show ?thesis by simp
qed

lemma uptime_days: "(e::int) div (1000 * 60 * 60 * 24) = e div 60000 div 1440"
  using zdiv_zmult2_eq [of 1440 e 60000] by simp

lemma uptime_hours: "(e::int) mod (1000 * 60 * 60 * 24) div (1000 * 60 * 60) = e div 60000 div 60 mod 24"
proof -
  have "e mod (3600000 * 24) div 3600000 = e div 3600000 mod 24"
    by (rule mod_mult_div) simp_all
  moreover have "e div 3600000 = e div 60000 div 60"
    using zdiv_zmult2_eq [of 60 e 60000] by simp
  ultimately show ?thesis by simp
qed

lemma uptime_minutes: "(e::int) mod (1000 * 60 * 60) div (1000 * 60) = e div 60000 mod 60"
proof -
  have "e mod (60000 * 60) div 60000 = e div 60000 mod 60"
    by (rule mod_mult_div) simp_all
  then show ?thesis by simp
qed

lemma getUptime_Some:
  assumes "startTime self = Some start" "start \<le> now"
  shows "getUptime now self =
        (let m = (now - start) div 60000 in
         if 1440 \<le> m
         then toString (m div 1440) @ ''d '' @ toString (m div 60 mod 24) @ ''h '' @ toString (m mod 60) @ ''m''
         else if 60 \<le> m then toString (m div 60) @ ''h '' @ toString (m mod 60) @ ''m''
         else toString m @ ''m'')"
proof -
  let ?e = "now - start"
  let ?m = "(now - start) div 60000"
  have e: "0 \<le> ?e" using assms(2) by simp
  then have m: "0 \<le> ?m" by simp
  have days: "?e div (1000 * 60 * 60 * 24) = ?m div 1440"
    by (rule uptime_days)
  have hours: "js_rem ?e (1000 * 60 * 60 * 24) div (1000 * 60 * 60) = ?m div 60 mod 24"
  proof -
    have "js_rem ?e (1000 * 60 * 60 * 24) = ?e mod (1000 * 60 * 60 * 24)"
      using e by (intro js_rem_nonneg) simp_all
    then show ?thesis by (simp only: uptime_hours)
  qed
  have minutes: "js_rem ?e (1000 * 60 * 60) div (1000 * 60) = ?m mod 60"
  proof -
    have "js_rem ?e (1000 * 60 * 60) = ?e mod (1000 * 60 * 60)"
      using e by (intro js_rem_nonneg) simp_all
    then show ?thesis by (simp only: uptime_minutes)
  qed
  have d0: "(0 < ?m div 1440) = (1440 \<le> ?m)" using m by auto
  have h0: "\<not> 1440 \<le> ?m \<Longrightarrow> ?m div 60 mod 24 = ?m div 60" using m by auto
  have h1: "(0 < ?m div 60) = (60 \<le> ?m)" using m by auto
  have small: "\<not> 60 \<le> ?m \<Longrightarrow> ?m mod 60 = ?m" using m by auto
  have "getUptime now self =
      (if 0 < ?m div 1440
       then toString (?m div 1440) @ ''d '' @ toString (?m div 60 mod 24) @ ''h '' @ toString (?m mod 60) @ ''m''
       else if 0 < ?m div 60 mod 24 then toString (?m div 60 mod 24) @ ''h '' @ toString (?m mod 60) @ ''m''
       else toString (?m mod 60) @ ''m'')"
    unfolding getUptime_def assms(1) option.case Let_def days hours minutes by (rule refl)
  also have "\<dots> = (if 1440 \<le> ?m
         then toString (?m div 1440) @ ''d '' @ toString (?m div 60 mod 24) @ ''h '' @ toString (?m mod 60) @ ''m''
         else if 60 \<le> ?m then toString (?m div 60) @ ''h '' @ toString (?m mod 60) @ ''m''
         else toString ?m @ ''m'')"
    using d0 h0 h1 small by auto
  finally show ?thesis unfolding Let_def .
qed

lemma formatUptime_getUptime: "formatUptime now (startTime self) = getUptime now self"
  by (simp add: formatUptime_def getUptime_def)

text \<open>
  Claim C8, as the program has it: without a start time \<open>getUptime\<close> is \<open>0m\<close>; with a
  start time not after now, and \<open>m\<close> the whole minutes elapsed, it shows days, hours and
  minutes (all three, zero or not) from one day on, hours and minutes from one hour on,
  and minutes alone below one hour. \<open>formatUptime\<close> is the same function of the start
  time.
\<close>

theorem getUptime_units:
  "(startTime self = None \<longrightarrow> getUptime now self = ''0m'') \<and>
   (\<forall>start. startTime self = Some start \<and> start \<le> now \<longrightarrow>
      getUptime now self =
        (let m = (now - start) div 60000 in
         if 1440 \<le> m
         then toString (m div 1440) @ ''d '' @ toString (m div 60 mod 24) @ ''h '' @ toString (m mod 60) @ ''m''
         else if 60 \<le> m then toString (m div 60) @ ''h '' @ toString (m mod 60) @ ''m''
         else toString m @ ''m'')) \<and>
   formatUptime now (startTime self) = getUptime now self"
  using getUptime_Some [of self _ now] formatUptime_getUptime [of now self]
  by (simp add: getUptime_def)

text \<open>The theorem at 1 day, 1 hour and 5 minutes after the start, and without a start.\<close>

theorem getUptime_units_witness:
  "startTime bot_connected = Some 0 \<and> (0::int) \<le> 90300000 \<and>
   getUptime 90300000 bot_connected = ''1d 1h 5m'' \<and>
   startTime bot_not_ready = None \<and> getUptime 90300000 bot_not_ready = ''0m''"
proof -
  have h: "startTime bot_connected = Some 0 \<and> (0::int) \<le> 90300000"
    by (simp add: bot_connected_def)
  have "startTime bot_connected = Some 0 \<and> (0::int) \<le> 90300000 \<longrightarrow>
        getUptime 90300000 bot_connected =
          (let m = (90300000 - 0) div 60000 in
           if 1440 \<le> m
           then toString (m div 1440) @ ''d '' @ toString (m div 60 mod 24) @ ''h '' @ toString (m mod 60) @ ''m''
           else if 60 \<le> m then toString (m div 60) @ ''h '' @ toString (m mod 60) @ ''m''
           else toString m @ ''m'')"
    using getUptime_units [of bot_connected 90300000] by blast
  with h have "getUptime 90300000 bot_connected =
          (let m = (90300000 - 0) div (60000::int) in
           if 1440 \<le> m
           then toString (m div 1440) @ ''d '' @ toString (m div 60 mod 24) @ ''h '' @ toString (m mod 60) @ ''m''
           else if 60 \<le> m then toString (m div 60) @ ''h '' @ toString (m mod 60) @ ''m''
           else toString m @ ''m'')"
    by blast
  then have a: "getUptime 90300000 bot_connected = ''1d 1h 5m''"
    by (simp add: Let_def toString_def string_of_nat.simps digit_char_def)
  have n: "startTime bot_not_ready = None" by (simp add: bot_not_ready_def)
  with getUptime_units [of bot_not_ready 90300000]
  have "getUptime 90300000 bot_not_ready = ''0m''" by blast
  with h a n show ?thesis by simp
qed

text \<open>
  The claim as worded (only the largest two non-zero units) fails: 2 days, 3 hours and
  14 minutes after the start the program shows three units, and after 1 day and 5
  minutes it shows the zero hours.
\<close>

theorem getUptime_shows_three_units:
  "getUptime 184440000 bot_connected = ''2d 3h 14m'' \<and>
   two_largest_units (184440000 - 0) = ''2d 3h'' \<and>
   getUptime 86700000 bot_connected = ''1d 0h 5m'' \<and>
   two_largest_units (86700000 - 0) = ''1d 5m''"
  by (simp add: getUptime_def two_largest_units_def bot_connected_def js_rem_def toString_def
      string_of_nat.simps digit_char_def Let_def)

section \<open>The command !clear (C9)\<close>

lemma toString_small: "toString 14 = ''14''" "toString 7 = ''7''" "toString 2 = ''2''"
  by (simp_all add: toString_def string_of_nat.simps digit_char_def)

text \<open>
  The number of days that \<open>formatClearCommand\<close> echoes: 14 without an argument and for
  an argument that \<open>parseInt\<close> does not read as a number, and else the integer that
  \<open>parseInt\<close> reads at the start of the argument.
\<close>

lemma clear_days_default: "clear_days [] = 14" "clear_days ([] # others) = 14"
  by (simp_all add: clear_days_def parseInt_Nil)




lemma executeCommand_clear:
  "executeCommand storage format_date now ''!clear'' args theBot st =
     (Inr (''Cleared '' @ toString (fst (deleteOldMessages storage now st)) @ '' messages older than '' @
           toString (clear_days args) @ '' days.''),
      snd (deleteOldMessages storage now st))"
  by (simp add: executeCommand_def formatClearCommand_def Let_def case_prod_unfold)

lemma deleteOldMessages_of_storage:
  "deleteOldMessages (MemStorage tz) = MemStorage_deleteOldMessages tz"
  "deleteOldMessages (DatabaseStorage tz) = DatabaseStorage_deleteOldMessages tz"
  by (simp_all add: MemStorage_def DatabaseStorage_def)




section \<open>The route POST /api/execute-command (C5)\<close>

lemma split_space_head:
  "split_space c \<noteq> [] \<and> starts_with (split_space c ! 0) ''!'' = starts_with c ''!''"
proof (cases c)
  case Nil
  then show ?thesis by simp
next
  case (Cons x xs)
  then show ?thesis by (cases "split_space xs") auto
qed

lemma post_execute_command_passed:
  assumes "starts_with command ''!''"
  shows "post_execute_command storage format_date now (Some command) (Some b) st =
     (let (result, st1) =
            (if client_isReady b
             then executeCommand storage format_date now (split_space command ! 0)
                    (drop 1 (split_space command)) b st
             else (Inr ''Bot is not connected to Discord'', st))
      in case result of
           Inr response \<Rightarrow>
             (Json response,
              snd (createCommandLog storage
                     \<lparr>ins_command = command, ins_response = response, ins_executed_at = now\<rparr> st1))
         | Inl (Error errorMessage) \<Rightarrow>
             (Status 500 (''Error executing command: '' @ errorMessage),
              snd (createCommandLog storage
                     \<lparr>ins_command = command, ins_response = ''Error: '' @ errorMessage,
                      ins_executed_at = now\<rparr> st1)))"
  using assms split_space_head [of command]
  by (simp add: post_execute_command_def Let_def)

lemma post_execute_command_rejected:
  "post_execute_command storage format_date now None theBot st = (Status 400 ''Invalid command format'', st)"
  "post_execute_command storage format_date now (Some command) None st
     = (Status 503 ''Discord bot is not connected'', st)"
  "\<not> starts_with command ''!'' \<Longrightarrow>
     post_execute_command storage format_date now (Some command) (Some b) st
       = (Status 400 ''Command must start with !'', st)"
  using split_space_head [of command]
  by (simp_all add: post_execute_command_def Let_def)

lemma DatabaseStorage_createCommandLog_appends:
  "tbl_commandLogs (snd (DatabaseStorage_createCommandLog log db)) =
     tbl_commandLogs db @
       [\<lparr>log_id = commandLogs_id_seq db, log_command = ins_command log,
         log_response = ins_response log, log_executed_at = ins_executed_at log\<rparr>]"
  by (simp add: DatabaseStorage_createCommandLog_def Let_def)

lemma MemStorage_createCommandLog_appends:
  "length (commandLogs st) < 1000 \<Longrightarrow>
   commandLogs (snd (MemStorage_createCommandLog log st)) =
     commandLogs st @
       [\<lparr>log_id = commandLogCurrentId st, log_command = ins_command log,
         log_response = ins_response log, log_executed_at = ins_executed_at log\<rparr>]"
  by (simp add: MemStorage_createCommandLog_def Let_def)

text \<open>
  Claim C5, as the program has it. A request without a string \<open>command\<close> is answered
  with status 400, a request while there is no bot object with status 503, a command
  that does not start with \<open>!\<close> with status 400; these three leave the storage as it
  is, so no command log entry is written. A request that passes the three checks writes
  one entry with the command and the response: the text \<open>Bot is not connected to
  Discord\<close>, answered as a success, when the client is not ready; the executor's answer;
  or \<open>Error:\<close> and the message, answered with status 500, when the executor throws.
\<close>

theorem post_execute_command_outcomes:
  "(body = None \<longrightarrow>
      post_execute_command storage format_date now body theBot st
        = (Status 400 ''Invalid command format'', st)) \<and>
   (\<forall>command. body = Some command \<and> theBot = None \<longrightarrow>
      post_execute_command storage format_date now body theBot st
        = (Status 503 ''Discord bot is not connected'', st)) \<and>
   (\<forall>command b. body = Some command \<and> theBot = Some b \<and> \<not> starts_with command ''!'' \<longrightarrow>
      post_execute_command storage format_date now body theBot st
        = (Status 400 ''Command must start with !'', st)) \<and>
   (\<forall>command b. body = Some command \<and> theBot = Some b \<and> starts_with command ''!'' \<and>
        \<not> client_isReady b \<longrightarrow>
      post_execute_command storage format_date now body theBot st
        = (Json ''Bot is not connected to Discord'',
           snd (createCommandLog storage
                  \<lparr>ins_command = command, ins_response = ''Bot is not connected to Discord'',
                   ins_executed_at = now\<rparr> st))) \<and>
   (\<forall>command b response st1. body = Some command \<and> theBot = Some b \<and> starts_with command ''!'' \<and>
        client_isReady b \<and>
        executeCommand storage format_date now (split_space command ! 0)
          (drop 1 (split_space command)) b st = (Inr response, st1) \<longrightarrow>
      post_execute_command storage format_date now body theBot st
        = (Json response,
           snd (createCommandLog storage
                  \<lparr>ins_command = command, ins_response = response, ins_executed_at = now\<rparr> st1))) \<and>
   (\<forall>command b errorMessage st1. body = Some command \<and> theBot = Some b \<and> starts_with command ''!'' \<and>
        client_isReady b \<and>
        executeCommand storage format_date now (split_space command ! 0)
          (drop 1 (split_space command)) b st = (Inl (Error errorMessage), st1) \<longrightarrow>
      post_execute_command storage format_date now body theBot st
        = (Status 500 (''Error executing command: '' @ errorMessage),
           snd (createCommandLog storage
                  \<lparr>ins_command = command, ins_response = ''Error: '' @ errorMessage,
                   ins_executed_at = now\<rparr> st1)))"
  by (auto simp: post_execute_command_rejected post_execute_command_passed)

lemma help_is_not_clear:
  "executeCommand storage format_date now ''!help'' args b st = (Inr formatHelpCommand, st)"
  "executeCommand storage format_date now ''!foo'' args b st
     = (Inl (Error ''Unknown command. Type !help for a list of commands''), st)"
  by (simp_all add: executeCommand_def)

text \<open>The six outcomes on a new in-memory store.\<close>

theorem post_execute_command_outcomes_witness:
  "post_execute_command (MemStorage utc_zone) (\<lambda>t. []) 5 None (Some bot_connected) MemStorage_new
     = (Status 400 ''Invalid command format'', MemStorage_new) \<and>
   post_execute_command (MemStorage utc_zone) (\<lambda>t. []) 5 (Some ''!help'') None MemStorage_new
     = (Status 503 ''Discord bot is not connected'', MemStorage_new) \<and>
   \<not> starts_with ''help'' ''!'' \<and>
   post_execute_command (MemStorage utc_zone) (\<lambda>t. []) 5 (Some ''help'') (Some bot_connected) MemStorage_new
     = (Status 400 ''Command must start with !'', MemStorage_new) \<and>
   starts_with ''!help'' ''!'' \<and> \<not> client_isReady bot_not_ready \<and>
   fst (post_execute_command (MemStorage utc_zone) (\<lambda>t. []) 5 (Some ''!help'') (Some bot_not_ready) MemStorage_new)
     = Json ''Bot is not connected to Discord'' \<and>
   commandLogs (snd (post_execute_command (MemStorage utc_zone) (\<lambda>t. []) 5 (Some ''!help'') (Some bot_not_ready) MemStorage_new))
     = [\<lparr>log_id = 1, log_command = ''!help'', log_response = ''Bot is not connected to Discord'',
         log_executed_at = 5\<rparr>] \<and>
   client_isReady bot_connected \<and>
   fst (post_execute_command (MemStorage utc_zone) (\<lambda>t. []) 5 (Some ''!help'') (Some bot_connected) MemStorage_new)
     = Json formatHelpCommand \<and>
   commandLogs (snd (post_execute_command (MemStorage utc_zone) (\<lambda>t. []) 5 (Some ''!help'') (Some bot_connected) MemStorage_new))
     = [\<lparr>log_id = 1, log_command = ''!help'', log_response = formatHelpCommand, log_executed_at = 5\<rparr>] \<and>
   starts_with ''!foo'' ''!'' \<and>
   fst (post_execute_command (MemStorage utc_zone) (\<lambda>t. []) 5 (Some ''!foo'') (Some bot_connected) MemStorage_new)
     = Status 500 ''Error executing command: Unknown command. Type !help for a list of commands'' \<and>
   commandLogs (snd (post_execute_command (MemStorage utc_zone) (\<lambda>t. []) 5 (Some ''!foo'') (Some bot_connected) MemStorage_new))
     = [\<lparr>log_id = 1, log_command = ''!foo'',
         log_response = ''Error: Unknown command. Type !help for a list of commands'',
         log_executed_at = 5\<rparr>]"
proof -
  have r: "client_isReady bot_connected" "\<not> client_isReady bot_not_ready"
    by (simp_all add: bot_connected_def bot_not_ready_def)
  have logs: "commandLogs (snd (createCommandLog (MemStorage utc_zone) log MemStorage_new)) =
      [\<lparr>log_id = 1, log_command = ins_command log, log_response = ins_response log,
        log_executed_at = ins_executed_at log\<rparr>]" for log
    by (simp add: MemStorage_def MemStorage_createCommandLog_def MemStorage_new_def Let_def)
  have sp: "split_space ''!help'' = [''!help'']" "split_space ''!foo'' = [''!foo'']"
    by simp_all
  have n3: "\<not> starts_with ''help'' ''!''" by simp
  have p4: "starts_with ''!help'' ''!''" "starts_with ''!foo'' ''!''" by simp_all
  have c1: "post_execute_command (MemStorage utc_zone) (\<lambda>t. []) 5 None (Some bot_connected) MemStorage_new
     = (Status 400 ''Invalid command format'', MemStorage_new)"
    using post_execute_command_outcomes
      [of None "MemStorage utc_zone" "\<lambda>t. []" 5 "Some bot_connected" MemStorage_new, THEN conjunct1]
    by simp
  have c2: "post_execute_command (MemStorage utc_zone) (\<lambda>t. []) 5 (Some ''!help'') None MemStorage_new
     = (Status 503 ''Discord bot is not connected'', MemStorage_new)"
    using post_execute_command_outcomes
      [of "Some ''!help''" "MemStorage utc_zone" "\<lambda>t. []" 5 None MemStorage_new,
       THEN conjunct2, THEN conjunct1, THEN spec, of "''!help''"]
    by simp
  have c3: "post_execute_command (MemStorage utc_zone) (\<lambda>t. []) 5 (Some ''help'') (Some bot_connected) MemStorage_new
     = (Status 400 ''Command must start with !'', MemStorage_new)"
    using post_execute_command_outcomes
      [of "Some ''help''" "MemStorage utc_zone" "\<lambda>t. []" 5 "Some bot_connected" MemStorage_new,
       THEN conjunct2, THEN conjunct2, THEN conjunct1, THEN spec, THEN spec,
       of "''help''" bot_connected]
    by simp
  have c4: "post_execute_command (MemStorage utc_zone) (\<lambda>t. []) 5 (Some ''!help'') (Some bot_not_ready) MemStorage_new
     = (Json ''Bot is not connected to Discord'',
           snd (createCommandLog (MemStorage utc_zone)
                  \<lparr>ins_command = ''!help'', ins_response = ''Bot is not connected to Discord'',
                   ins_executed_at = 5\<rparr> MemStorage_new))"
    using r(2) post_execute_command_outcomes
      [of "Some ''!help''" "MemStorage utc_zone" "\<lambda>t. []" 5 "Some bot_not_ready" MemStorage_new,
       THEN conjunct2, THEN conjunct2, THEN conjunct2, THEN conjunct1, THEN spec, THEN spec,
       of "''!help''" bot_not_ready]
    by simp
  have e5: "executeCommand (MemStorage utc_zone) (\<lambda>t. []) 5 (split_space ''!help'' ! 0)
          (drop 1 (split_space ''!help'')) bot_connected MemStorage_new = (Inr formatHelpCommand, MemStorage_new)"
    unfolding sp by (simp add: help_is_not_clear)
  have c5: "post_execute_command (MemStorage utc_zone) (\<lambda>t. []) 5 (Some ''!help'') (Some bot_connected) MemStorage_new
     = (Json formatHelpCommand,
           snd (createCommandLog (MemStorage utc_zone)
                  \<lparr>ins_command = ''!help'', ins_response = formatHelpCommand, ins_executed_at = 5\<rparr>
                  MemStorage_new))"
    using r(1) p4(1) e5 post_execute_command_outcomes
      [of "Some ''!help''" "MemStorage utc_zone" "\<lambda>t. []" 5 "Some bot_connected" MemStorage_new,
       THEN conjunct2, THEN conjunct2, THEN conjunct2, THEN conjunct2, THEN conjunct1,
       THEN spec, THEN spec, THEN spec, THEN spec,
       of "''!help''" bot_connected formatHelpCommand MemStorage_new]
    by (simp only: simp_thms)
  have e6: "executeCommand (MemStorage utc_zone) (\<lambda>t. []) 5 (split_space ''!foo'' ! 0)
          (drop 1 (split_space ''!foo'')) bot_connected MemStorage_new
        = (Inl (Error ''Unknown command. Type !help for a list of commands''), MemStorage_new)"
    unfolding sp by (simp add: help_is_not_clear)
  have c6: "post_execute_command (MemStorage utc_zone) (\<lambda>t. []) 5 (Some ''!foo'') (Some bot_connected) MemStorage_new
     = (Status 500 (''Error executing command: '' @ ''Unknown command. Type !help for a list of commands''),
           snd (createCommandLog (MemStorage utc_zone)
                  \<lparr>ins_command = ''!foo'',
                   ins_response = ''Error: '' @ ''Unknown command. Type !help for a list of commands'',
                   ins_executed_at = 5\<rparr> MemStorage_new))"
    using r(1) p4(2) e6 post_execute_command_outcomes
      [of "Some ''!foo''" "MemStorage utc_zone" "\<lambda>t. []" 5 "Some bot_connected" MemStorage_new,
       THEN conjunct2, THEN conjunct2, THEN conjunct2, THEN conjunct2, THEN conjunct2,
       THEN spec, THEN spec, THEN spec, THEN spec,
       of "''!foo''" bot_connected "''Unknown command. Type !help for a list of commands''" MemStorage_new]
    by (simp only: simp_thms)
  show ?thesis
    unfolding c1 c2 c3 c4 c5 c6 fst_conv snd_conv logs using r n3 p4 by simp
qed

text \<open>
  The claim as worded (every request appends a log entry; no active connection is an
  error) fails: the command \<open>help\<close> and the request without a bot object are rejected
  and the store stays without a log entry, and with a bot whose client is not ready the
  request is answered as a success.
\<close>

theorem post_execute_command_rejection_not_logged:
  "post_execute_command (MemStorage utc_zone) (\<lambda>t. []) 5 (Some ''help'') (Some bot_connected) MemStorage_new
     = (Status 400 ''Command must start with !'', MemStorage_new) \<and>
   post_execute_command (MemStorage utc_zone) (\<lambda>t. []) 5 (Some ''!help'') None MemStorage_new
     = (Status 503 ''Discord bot is not connected'', MemStorage_new) \<and>
   commandLogs MemStorage_new = [] \<and>
   fst (post_execute_command (MemStorage utc_zone) (\<lambda>t. []) 5 (Some ''!help'') (Some bot_not_ready) MemStorage_new)
     = Json ''Bot is not connected to Discord''"
  by (simp add: post_execute_command_def Let_def MemStorage_new_def bot_not_ready_def)

section \<open>The command !clear through the route\<close>

text \<open>
  The route splits the request at single spaces, so that a second space before the
  number makes the first argument empty: \<open>!clear  7\<close> answers with the default of 14
  days.
\<close>

lemma clear_command_double_space:
  "fst (post_execute_command (MemStorage utc_zone) (\<lambda>t. []) sweep_now (Some ''!clear  7'')
          (Some bot_connected) (fold (MemStorage_call utc_zone) retention_calls MemStorage_new))
     = Json ''Cleared 2 messages older than 14 days.''"
proof -
  have s: "split_space ''!clear  7'' = [''!clear'', [], ''7'']" by simp
  have p: "starts_with ''!clear  7'' ''!''" by simp
  have r: "client_isReady bot_connected" by (simp add: bot_connected_def)
  have f: "fst (MemStorage_deleteOldMessages utc_zone sweep_now
          (fold (MemStorage_call utc_zone) retention_calls MemStorage_new)) = 2"
    using retention_scenario by simp
  show ?thesis
    unfolding post_execute_command_passed [OF p] s
    using r f
    by (simp add: executeCommand_clear deleteOldMessages_of_storage clear_days_default
        toString_small case_prod_unfold)
qed

section \<open>The command !messages (C10)\<close>

lemma js_slice_from_start:
  "0 \<le> l \<Longrightarrow> js_slice 0 l xs = take (nat l) xs"
  by (simp add: js_slice_def slice_index_def Let_def min_def)

lemma js_slice_all_but_last: "js_slice 0 (- 1) xs = butlast xs"
proof -
  have "nat (int (length xs) - 1) = length xs - 1" by simp
  then show ?thesis
    by (simp add: js_slice_def slice_index_def Let_def butlast_conv_take max_def)
qed

lemma MemStorage_getMessages_at_most:
  assumes "MemStorage_getMessages opts st = Inr (msgs, t)" "opt_limit opts = Some l" "opt_offset opts = None" "0 \<le> l"
  shows "int (length msgs) \<le> l"
  using assms by (auto simp: MemStorage_getMessages_def Let_def js_slice_from_start)

lemma DatabaseStorage_getMessages_at_most:
  assumes "DatabaseStorage_getMessages opts db = Inr (msgs, t)" "opt_limit opts = Some l" "opt_offset opts = None" "0 \<le> l"
  shows "int (length msgs) \<le> l"
  using assms
  by (auto simp: DatabaseStorage_getMessages_def Let_def sql_limit_offset_def split: if_splits)

text \<open>
  A negative limit, such as the count \<open>-1\<close> of \<open>!messages\<close> gives: \<open>slice\<close> of the
  in-memory implementation counts it from the end and returns all but the last message
  of the selection; the database query is built without a \<open>LIMIT\<close> clause and returns
  the whole selection.
\<close>

lemma getMessages_negative_limit:
  assumes "opt_limit options = Some (- 1)" "opt_offset options = None"
  shows "MemStorage_getMessages options st =
           Inr (butlast (MemStorage_filtered options (Map_values (discordMessages st))),
                int (length (MemStorage_filtered options (Map_values (discordMessages st)))))"
    and "DatabaseStorage_getMessages options db =
           Inr (sort_desc msg_created_at
                  (filter (DatabaseStorage_conditions options) (Map_values (tbl_discordMessages db))),
                int (length (filter (DatabaseStorage_conditions options)
                               (Map_values (tbl_discordMessages db)))))"
proof -
  show "MemStorage_getMessages options st =
           Inr (butlast (MemStorage_filtered options (Map_values (discordMessages st))),
                int (length (MemStorage_filtered options (Map_values (discordMessages st)))))"
    using assms by (simp add: MemStorage_getMessages_def Let_def js_slice_all_but_last)
  show "DatabaseStorage_getMessages options db =
           Inr (sort_desc msg_created_at
                  (filter (DatabaseStorage_conditions options) (Map_values (tbl_discordMessages db))),
                int (length (filter (DatabaseStorage_conditions options)
                               (Map_values (tbl_discordMessages db)))))"
    using assms by (simp add: DatabaseStorage_getMessages_def Let_def sql_limit_offset_def)
qed

text \<open>
  The limit that \<open>formatMessagesCommand\<close> passes to \<open>getMessages\<close>: 5 when there is no
  second argument or \<open>parseInt\<close> does not read it as a number, and else the smaller of 20
  and the number; it is never more than 20, and it is negative for a negative count.
\<close>

lemma messages_limit_cases:
  "length args \<le> 1 \<Longrightarrow> messages_limit args = 5"
  "parseInt c = None \<Longrightarrow> messages_limit (channel # c # others) = 5"
  "parseInt c = Some n \<Longrightarrow> messages_limit (channel # c # others) = min 20 n"
  "messages_limit args \<le> 20"
  by (simp_all add: messages_limit_def)

lemma messages_limit_numeral:
  "messages_limit (channel # toString n # others) = min 20 n"
  by (simp add: messages_limit_cases(3) [OF parseInt_toString])

text \<open>
  A line of the answer: the author and the date, then the content, cut to 100
  characters and followed by \<open>...\<close> when it is longer.
\<close>

lemma format_message_line:
  "format_message format_date msg =
     ''**'' @ msg_author_username msg @ ''** ('' @ format_date (msg_created_at msg) @ ''): '' @
     (if length (msg_content msg) > 100 then take 100 (msg_content msg) @ ''...'' else msg_content msg)"
  by (simp add: format_message_def)

lemma format_message_long:
  "format_message (\<lambda>t. ''now'') msg_long = ''**ann** (now): '' @ replicate 100 CHR ''a'' @ ''...''"
  by (simp add: format_message_def msg_long_def msg_original_def)

text \<open>
  The answer of \<open>!messages\<close> without a channel mention, from the messages and the total
  that \<open>getMessages\<close> returns for the limit of the command.
\<close>

lemma executeCommand_messages:
  assumes "messages_channelId args = None"
    and "getMessages storage
           \<lparr>opt_serverId = None, opt_channelId = None, opt_search = None,
            opt_limit = Some (messages_limit args), opt_offset = None\<rparr> st = Inr (msgs, t)"
    and "msgs \<noteq> []"
  shows "executeCommand storage format_date now ''!messages'' args theBot st =
     (Inr (''**Recent Messages from all channels** (Showing '' @ toString (int (length msgs)) @
           '' of '' @ toString t @ '' messages):'' @ newline @ newline @
           join (newline @ newline) (map (format_message format_date) msgs)), st)"
  using assms
  by (simp add: executeCommand_def formatMessagesCommand_def Let_def truthy_def)

text \<open>
  With a count that is not negative, the messages that \<open>getMessages\<close> returns to the
  command are at most the count and at most 20, in both implementations.
\<close>

lemma messages_command_at_most:
  assumes "parseInt c = Some n" "0 \<le> n"
  shows "getMessages (MemStorage tz)
           \<lparr>opt_serverId = None, opt_channelId = messages_channelId [channel, c], opt_search = None,
            opt_limit = Some (messages_limit [channel, c]), opt_offset = None\<rparr> st = Inr (msgs, t)
         \<Longrightarrow> int (length msgs) \<le> min 20 n"
    and "getMessages (DatabaseStorage tz)
           \<lparr>opt_serverId = None, opt_channelId = messages_channelId [channel, c], opt_search = None,
            opt_limit = Some (messages_limit [channel, c]), opt_offset = None\<rparr> db = Inr (msgs, t)
         \<Longrightarrow> int (length msgs) \<le> min 20 n"
proof -
  have l: "messages_limit [channel, c] = min 20 n" "0 \<le> min 20 n"
    using assms by (simp_all add: messages_limit_cases(3))
  show "int (length msgs) \<le> min 20 n"
    if "getMessages (MemStorage tz)
           \<lparr>opt_serverId = None, opt_channelId = messages_channelId [channel, c], opt_search = None,
            opt_limit = Some (messages_limit [channel, c]), opt_offset = None\<rparr> st = Inr (msgs, t)"
    using MemStorage_getMessages_at_most [of _ st msgs t "min 20 n"] that l
    by (simp add: MemStorage_def)
  show "int (length msgs) \<le> min 20 n"
    if "getMessages (DatabaseStorage tz)
           \<lparr>opt_serverId = None, opt_channelId = messages_channelId [channel, c], opt_search = None,
            opt_limit = Some (messages_limit [channel, c]), opt_offset = None\<rparr> db = Inr (msgs, t)"
    using DatabaseStorage_getMessages_at_most [of _ db msgs t "min 20 n"] that l
    by (simp add: DatabaseStorage_def)
qed

subsection \<open>Stores of numbered messages\<close>

lemma AList_update_absent:
  "k \<notin> fst ` set xs \<Longrightarrow> AList.update k v xs = xs @ [(k, v)]"
  by (induction xs) auto

lemma msg_numbered_fields:
  "msg_id (msg_numbered i) = toString (int i)" "msg_created_at (msg_numbered i) = int i"
  by (simp_all add: msg_numbered_def)

lemma msg_numbered_fresh:
  "msg_id (msg_numbered n) \<notin> fst ` set (map (\<lambda>i. (msg_id (msg_numbered i), msg_numbered i)) [0..<n])"
proof
  assume "msg_id (msg_numbered n) \<in> fst ` set (map (\<lambda>i. (msg_id (msg_numbered i), msg_numbered i)) [0..<n])"
  then obtain i where i: "i < n" "msg_id (msg_numbered n) = msg_id (msg_numbered i)"
    by auto
  from i(2) have "toString (int n) = toString (int i)"
    by (simp only: msg_numbered_fields)
  then have "int n = int i" by (rule toString_inj)
  with i(1) show False by simp
qed

lemma numbered_calls_Suc:
  "numbered_calls (Suc n) = numbered_calls n @ [CreateMessage (msg_numbered n)]"
  by (simp add: numbered_calls_def)

lemma MemStorage_numbered_store:
  "DAList.impl_of (discordMessages (fold (MemStorage_call tz) (numbered_calls n) MemStorage_new))
     = map (\<lambda>i. (msg_id (msg_numbered i), msg_numbered i)) [0..<n]"
proof (induction n)
  case 0
  then show ?case by (simp add: numbered_calls_def MemStorage_new_def DAList.empty.rep_eq)
next
  case (Suc n)
  then show ?case
    using AList_update_absent [OF msg_numbered_fresh [of n]]
    by (simp add: numbered_calls_Suc MemStorage_createMessage_def Let_def DAList.update.rep_eq)
qed

lemma DatabaseStorage_numbered_store:
  "DAList.impl_of (tbl_discordMessages (fold (DatabaseStorage_call tz) (numbered_calls n) DatabaseStorage_new))
     = map (\<lambda>i. (msg_id (msg_numbered i), msg_numbered i)) [0..<n]"
proof (induction n)
  case 0
  then show ?case by (simp add: numbered_calls_def DatabaseStorage_new_def DAList.empty.rep_eq)
next
  case (Suc n)
  let ?db = "fold (DatabaseStorage_call tz) (numbered_calls n) DatabaseStorage_new"
  have "map_of (DAList.impl_of (tbl_discordMessages ?db)) (msg_id (msg_numbered n)) = None"
    unfolding Suc using msg_numbered_fresh [of n] by (simp only: map_of_eq_None_iff not_False_eq_True)
  then have "DatabaseStorage_getMessage (msg_id (msg_numbered n)) ?db = None"
    by (simp add: DatabaseStorage_getMessage_def DAList.lookup.rep_eq)
  then show ?case
    using Suc AList_update_absent [OF msg_numbered_fresh [of n]]
    by (simp add: numbered_calls_Suc DatabaseStorage_createMessage_def updateMessageCount_def Let_def
        DAList.update.rep_eq)
qed

lemma insort_key_last:
  "\<forall>x\<in>set xs. f x < f a \<Longrightarrow> insort_key f a xs = xs @ [a]"
  by (induction xs) auto

lemma foldr_insort_numbered:
  "n \<le> m \<Longrightarrow>
   foldr (insort_key (\<lambda>x. - msg_created_at x)) (map msg_numbered [0..<n])
     (map msg_numbered (rev [n..<m])) = map msg_numbered (rev [0..<m])"
proof (induction n)
  case 0
  then show ?case by simp
next
  case (Suc n)
  then have u: "[n..<m] = n # [Suc n..<m]" by (simp add: upt_conv_Cons)
  have "insort_key (\<lambda>x. - msg_created_at x) (msg_numbered n) (map msg_numbered (rev [Suc n..<m]))
          = map msg_numbered (rev [Suc n..<m]) @ [msg_numbered n]"
    by (rule insort_key_last) (auto simp: msg_numbered_fields)
  also have "\<dots> = map msg_numbered (rev [n..<m])"
    unfolding u by simp
  finally show ?case using Suc by simp
qed

lemma sort_desc_numbered:
  "sort_desc msg_created_at (map msg_numbered [0..<n]) = map msg_numbered (rev [0..<n])"
  using foldr_insort_numbered [of n n] by (simp add: sort_desc_def sort_key_def)

lemma numbered_all_but_last:
  "butlast (map msg_numbered (rev [0..<n])) = map msg_numbered (rev [1..<n])"
  by (simp add: map_butlast [symmetric] butlast_rev tl_upt)

lemma toString_counts: "toString 24 = ''24''" "toString 25 = ''25''" "toString (- 1) = ''-1''"
  by (simp_all add: toString_def string_of_nat.simps digit_char_def)

lemma messages_arguments_x_minus_1:
  "messages_channelId [''x'', ''-1''] = None" "messages_limit [''x'', ''-1''] = - 1"
proof -
  show "messages_channelId [''x'', ''-1''] = None"
    by (simp add: messages_channelId_def mention_at_def)
  show "messages_limit [''x'', ''-1''] = - 1"
    using messages_limit_numeral [of "''x''" "- 1" "[]"] by (simp add: toString_counts)
qed

lemma MemStorage_numbered_getMessages:
  "getMessages (MemStorage tz)
     \<lparr>opt_serverId = None, opt_channelId = None, opt_search = None,
      opt_limit = Some (- 1), opt_offset = None\<rparr>
     (fold (MemStorage_call tz) (numbered_calls n) MemStorage_new)
   = Inr (map msg_numbered (rev [1..<n]), int n)"
proof -
  have v: "Map_values (discordMessages (fold (MemStorage_call tz) (numbered_calls n) MemStorage_new))
             = map msg_numbered [0..<n]"
    by (simp add: Map_values_def MemStorage_numbered_store comp_def)
  show ?thesis
    by (simp add: MemStorage_def getMessages_negative_limit(1) MemStorage_filtered_def truthy_def
        v sort_desc_numbered numbered_all_but_last del: upt_Suc)
qed

lemma DatabaseStorage_numbered_getMessages:
  "getMessages (DatabaseStorage tz)
     \<lparr>opt_serverId = None, opt_channelId = None, opt_search = None,
      opt_limit = Some (- 1), opt_offset = None\<rparr>
     (fold (DatabaseStorage_call tz) (numbered_calls n) DatabaseStorage_new)
   = Inr (map msg_numbered (rev [0..<n]), int n)"
proof -
  have v: "Map_values (tbl_discordMessages (fold (DatabaseStorage_call tz) (numbered_calls n) DatabaseStorage_new))
             = map msg_numbered [0..<n]"
    by (simp add: Map_values_def DatabaseStorage_numbered_store comp_def)
  show ?thesis
    by (simp add: DatabaseStorage_def getMessages_negative_limit(2) DatabaseStorage_conditions_def
        truthy_def v sort_desc_numbered del: upt_Suc)
qed

text \<open>
  Claim C10 says that a numeric count is clamped to at most 20 results, and the program
  notes \<open>Max 20 messages at once\<close> where it computes the limit. \<open>formatMessagesCommand\<close>
  takes the smaller of 20 and the count and does not bound it from below: for the count
  \<open>-1\<close> the limit is \<open>-1\<close>. On a store of 25 messages, \<open>!messages x -1\<close> answers with 24
  messages from the in-memory implementation (all but the oldest) and with all 25 from
  the database implementation.
\<close>

theorem messages_command_negative_count:
  "fst (executeCommand (MemStorage utc_zone) (\<lambda>t. []) 0 ''!messages'' [''x'', ''-1''] bot_connected
          (fold (MemStorage_call utc_zone) (numbered_calls 25) MemStorage_new))
     = Inr (''**Recent Messages from all channels** (Showing 24 of 25 messages):'' @
            newline @ newline @
            join (newline @ newline) (map (format_message (\<lambda>t. [])) (map msg_numbered (rev [1..<25])))) \<and>
   length (map msg_numbered (rev [1..<25])) = 24 \<and>
   fst (executeCommand (DatabaseStorage utc_zone) (\<lambda>t. []) 0 ''!messages'' [''x'', ''-1''] bot_connected
          (fold (DatabaseStorage_call utc_zone) (numbered_calls 25) DatabaseStorage_new))
     = Inr (''**Recent Messages from all channels** (Showing 25 of 25 messages):'' @
            newline @ newline @
            join (newline @ newline) (map (format_message (\<lambda>t. [])) (map msg_numbered (rev [0..<25])))) \<and>
   length (map msg_numbered (rev [0..<25])) = 25"
proof -
  have n1: "map msg_numbered (rev [1..<25]) \<noteq> []" "map msg_numbered (rev [0..<25]) \<noteq> []"
    by simp_all
  have l: "length (map msg_numbered (rev [1..<25])) = 24" "length (map msg_numbered (rev [0..<25])) = 25"
    by simp_all
  have m: "getMessages (MemStorage utc_zone)
           \<lparr>opt_serverId = None, opt_channelId = None, opt_search = None,
            opt_limit = Some (messages_limit [''x'', ''-1'']), opt_offset = None\<rparr>
           (fold (MemStorage_call utc_zone) (numbered_calls 25) MemStorage_new)
         = Inr (map msg_numbered (rev [1..<25]), 25)"
    unfolding messages_arguments_x_minus_1
    using MemStorage_numbered_getMessages [of utc_zone 25] by simp
  have d: "getMessages (DatabaseStorage utc_zone)
           \<lparr>opt_serverId = None, opt_channelId = None, opt_search = None,
            opt_limit = Some (messages_limit [''x'', ''-1'']), opt_offset = None\<rparr>
           (fold (DatabaseStorage_call utc_zone) (numbered_calls 25) DatabaseStorage_new)
         = Inr (map msg_numbered (rev [0..<25]), 25)"
    unfolding messages_arguments_x_minus_1
    using DatabaseStorage_numbered_getMessages [of utc_zone 25] by simp
  show ?thesis
    unfolding executeCommand_messages [OF messages_arguments_x_minus_1(1) m n1(1)]
      executeCommand_messages [OF messages_arguments_x_minus_1(1) d n1(2)] fst_conv l
    by (simp add: toString_counts)
qed

section \<open>Command logs (C7)\<close>

lemma DatabaseStorage_log_all_length:
  "length (tbl_commandLogs (DatabaseStorage_log_all logs db)) = length (tbl_commandLogs db) + length logs"
  unfolding DatabaseStorage_log_all_def
  by (induction logs arbitrary: db) (simp_all add: DatabaseStorage_createCommandLog_appends)

lemma MemStorage_createCommandLog_length:
  "length (commandLogs (snd (MemStorage_createCommandLog log st)))
     = min 1000 (length (commandLogs st) + 1)"
  by (simp add: MemStorage_createCommandLog_def Let_def js_slice_from_start sort_desc_def)

lemma MemStorage_log_all_length:
  "length (commandLogs st) \<le> 1000 \<Longrightarrow>
   length (commandLogs (MemStorage_log_all logs st)) = min 1000 (length (commandLogs st) + length logs)"
  unfolding MemStorage_log_all_def
proof (induction logs arbitrary: st)
  case Nil
  then show ?case by simp
next
  case (Cons log logs)
  have "length (commandLogs (snd (MemStorage_createCommandLog log st))) \<le> 1000"
    by (simp add: MemStorage_createCommandLog_length)
  from Cons.IH [OF this] show ?case
    by (simp add: MemStorage_createCommandLog_length min_def)
qed

text \<open>
  Both implementations number the entries from a counter that grows by one with every
  insert.
\<close>

lemma MemStorage_createCommandLog_id:
  "log_id (fst (MemStorage_createCommandLog log st)) = commandLogCurrentId st \<and>
   commandLogCurrentId (snd (MemStorage_createCommandLog log st)) = commandLogCurrentId st + 1"
  by (simp add: MemStorage_createCommandLog_def Let_def)

lemma DatabaseStorage_createCommandLog_id:
  "log_id (fst (DatabaseStorage_createCommandLog log db)) = commandLogs_id_seq db \<and>
   commandLogs_id_seq (snd (DatabaseStorage_createCommandLog log db)) = commandLogs_id_seq db + 1"
  by (simp add: DatabaseStorage_createCommandLog_def Let_def)

text \<open>
  The in-memory implementation keeps, past 1000 entries, the first 1000 in descending
  order of \<open>executed_at\<close>; its retrieval is sorted by descending \<open>executed_at\<close>, stable
  on equal times, and cut to the limit.
\<close>

lemma MemStorage_createCommandLog_trims:
  "commandLogs (snd (MemStorage_createCommandLog log st)) =
     (let logs = commandLogs st @
            [\<lparr>log_id = commandLogCurrentId st, log_command = ins_command log,
              log_response = ins_response log, log_executed_at = ins_executed_at log\<rparr>]
      in if length logs > 1000 then take 1000 (sort_desc log_executed_at logs) else logs)"
  by (simp add: MemStorage_createCommandLog_def Let_def js_slice_from_start)

lemma sort_desc_sorted: "sorted (map (\<lambda>x. - key x) (sort_desc key xs))"
  by (simp add: sort_desc_def)

lemma sort_desc_stable:
  "filter (\<lambda>x. key x = k) (sort_desc key xs) = filter (\<lambda>x. key x = k) xs"
  using sort_key_stable [of "\<lambda>x. - key x" "- k" xs] by (simp add: sort_desc_def)

lemma MemStorage_getCommandLogs_newest_first:
  assumes "0 \<le> limit"
  shows "MemStorage_getCommandLogs limit st = take (nat limit) (sort_desc log_executed_at (commandLogs st))"
    and "int (length (MemStorage_getCommandLogs limit st)) \<le> limit"
    and "sorted (map (\<lambda>l. - log_executed_at l) (MemStorage_getCommandLogs limit st))"
  using assms
  by (simp_all add: MemStorage_getCommandLogs_def js_slice_from_start sorted_wrt_take
      sort_desc_sorted take_map [symmetric])

text \<open>
  Claim C7: after every insert at most the newest 1000 command log entries are
  retained. The in-memory implementation trims (1001 inserts leave 1000 entries); the
  database implementation never deletes a command log: 1001 inserts on a new database
  leave 1001 rows.
\<close>

theorem DatabaseStorage_createCommandLog_never_trims:
  "length (tbl_commandLogs (DatabaseStorage_log_all (replicate 1001 log_entry) DatabaseStorage_new)) = 1001 \<and>
   length (commandLogs (MemStorage_log_all (replicate 1001 log_entry) MemStorage_new)) = 1000"
  by (simp add: DatabaseStorage_log_all_length MemStorage_log_all_length DatabaseStorage_new_def
      MemStorage_new_def)

section \<open>Searching messages (C4)\<close>

text \<open>
  What both implementations of \<open>getMessages\<close> do for a non-negative limit and offset:
  the filters are applied together, the selection is sorted by descending \<open>created_at\<close>,
  the page is the \<open>limit\<close> messages from \<open>offset\<close> on, and the total is the size of the
  selection; the limit defaults to 10 and the offset to 0. Consecutive pages follow one
  another in the sorted selection.
\<close>

lemma js_slice_page:
  assumes "0 \<le> offset" "0 \<le> limit"
  shows "js_slice offset (offset + limit) xs = take (nat limit) (drop (nat offset) xs)"
proof (cases "offset \<le> int (length xs)")
  case True
  then have k: "slice_index (int (length xs)) offset = nat offset"
    using assms by (simp add: slice_index_def min_def)
  have "take (slice_index (int (length xs)) (offset + limit) - nat offset) (drop (nat offset) xs)
          = take (nat limit) (drop (nat offset) xs)"
  proof (cases "offset + limit \<le> int (length xs)")
    case True
    then have "slice_index (int (length xs)) (offset + limit) - nat offset = nat limit"
      using assms by (simp add: slice_index_def min_def nat_add_distrib)
    then show ?thesis by simp
  next
    case False
    then have f: "slice_index (int (length xs)) (offset + limit) = length xs"
      using assms by (simp add: slice_index_def min_def)
    have "length (drop (nat offset) xs) \<le> nat limit" using False assms by simp
    then show ?thesis unfolding f by simp
  qed
  with k show ?thesis by (simp add: js_slice_def Let_def)
next
  case False
  then have "slice_index (int (length xs)) offset = length xs"
    using assms by (simp add: slice_index_def min_def)
  moreover have "drop (nat offset) xs = []" using False by simp
  ultimately show ?thesis by (simp add: js_slice_def Let_def)
qed

lemma MemStorage_filtered_conjunction:
  "MemStorage_filtered options all =
     sort_desc msg_created_at
       (filter (\<lambda>msg.
          (if truthy (opt_serverId options) then msg_server_id msg = the (opt_serverId options) else True) \<and>
          (if truthy (opt_channelId options) then msg_channel_id msg = the (opt_channelId options) else True) \<and>
          (if truthy (opt_search options) then search_hit (the (opt_search options)) msg else True)) all)"
  by (simp add: MemStorage_filtered_def Let_def conj_commute)

lemma MemStorage_getMessages_page:
  assumes "opt_limit options = Some limit" "opt_offset options = Some offset" "0 \<le> limit" "0 \<le> offset"
  shows "MemStorage_getMessages options st =
     Inr (take (nat limit) (drop (nat offset) (MemStorage_filtered options (Map_values (discordMessages st)))),
          int (length (MemStorage_filtered options (Map_values (discordMessages st)))))"
  using assms by (simp add: MemStorage_getMessages_def Let_def js_slice_page)

lemma MemStorage_getMessages_defaults:
  assumes "opt_limit options = None" "opt_offset options = None"
  shows "MemStorage_getMessages options st =
     Inr (take 10 (MemStorage_filtered options (Map_values (discordMessages st))),
          int (length (MemStorage_filtered options (Map_values (discordMessages st)))))"
  using assms js_slice_page [of 0 10] by (simp add: MemStorage_getMessages_def Let_def)

lemma MemStorage_filtered_sorted:
  "sorted (map (\<lambda>msg. - msg_created_at msg) (MemStorage_filtered options all))"
  by (simp add: MemStorage_filtered_conjunction sort_desc_sorted)

lemma pages_no_gap_no_overlap:
  "take n xs @ take n (drop n xs) = take (n + n) xs"
  by (simp add: take_add)

lemma MemStorage_consecutive_pages:
  assumes "0 \<le> limit"
    and "MemStorage_getMessages (options\<lparr>opt_limit := Some limit, opt_offset := Some 0\<rparr>) st = Inr (page1, total1)"
    and "MemStorage_getMessages (options\<lparr>opt_limit := Some limit, opt_offset := Some limit\<rparr>) st = Inr (page2, total2)"
  shows "page1 @ page2 = take (nat limit + nat limit) (MemStorage_filtered options (Map_values (discordMessages st)))"
    and "total1 = int (length (MemStorage_filtered options (Map_values (discordMessages st))))"
    and "total2 = total1"
proof -
  have f: "MemStorage_filtered (options\<lparr>opt_limit := a, opt_offset := b\<rparr>) all = MemStorage_filtered options all"
    for a b all
    by (simp add: MemStorage_filtered_def)
  have p1: "page1 = take (nat limit) (MemStorage_filtered options (Map_values (discordMessages st)))"
    and t1: "total1 = int (length (MemStorage_filtered options (Map_values (discordMessages st))))"
    using assms(1) assms(2)
      MemStorage_getMessages_page [of "options\<lparr>opt_limit := Some limit, opt_offset := Some 0\<rparr>" limit 0 st]
    by (simp_all add: f)
  have p2: "page2 = take (nat limit) (drop (nat limit) (MemStorage_filtered options (Map_values (discordMessages st))))"
    and t2: "total2 = int (length (MemStorage_filtered options (Map_values (discordMessages st))))"
    using assms(1) assms(3)
      MemStorage_getMessages_page [of "options\<lparr>opt_limit := Some limit, opt_offset := Some limit\<rparr>" limit limit st]
    by (simp_all add: f)
  show "page1 @ page2 = take (nat limit + nat limit) (MemStorage_filtered options (Map_values (discordMessages st)))"
    unfolding p1 p2 by (rule pages_no_gap_no_overlap)
  show "total1 = int (length (MemStorage_filtered options (Map_values (discordMessages st))))"
    by (rule t1)
  show "total2 = total1" by (simp add: t1 t2)
qed

lemma DatabaseStorage_getMessages_page:
  assumes "opt_limit options = Some limit" "opt_offset options = Some offset" "0 \<le> limit" "0 \<le> offset"
  shows "DatabaseStorage_getMessages options db =
     Inr (take (nat limit) (drop (nat offset)
            (sort_desc msg_created_at
               (filter (DatabaseStorage_conditions options) (Map_values (tbl_discordMessages db))))),
          int (length (filter (DatabaseStorage_conditions options) (Map_values (tbl_discordMessages db)))))"
  using assms by (simp add: DatabaseStorage_getMessages_def Let_def sql_limit_offset_def)

text \<open>
  \<open>LIKE\<close> against \<open>includes\<close>: a pattern \<open>%s%\<close> whose text \<open>s\<close> holds none of the pattern
  characters matches the strings that have \<open>s\<close> as a substring.
\<close>

lemma like_match_percent: "like_match ''%'' t"
  by (induction t) simp_all

lemma like_match_plain_prefix:
  assumes "CHR ''%'' \<notin> set s" "CHR ''_'' \<notin> set s" "CHR 0x5C \<notin> set s"
  shows "like_match (s @ ''%'') t = starts_with t s"
  using assms
proof (induction s arbitrary: t)
  case Nil
  then show ?case using like_match_percent [of t] by (cases t) simp_all
next
  case (Cons p ps)
  then show ?case by (cases t) auto
qed

lemma like_match_includes:
  assumes "CHR ''%'' \<notin> set s" "CHR ''_'' \<notin> set s" "CHR 0x5C \<notin> set s"
  shows "like_match (''%'' @ s @ ''%'') t = js_includes t s"
proof (induction t)
  case Nil
  show ?case using like_match_plain_prefix [OF assms, of "[]"] by (cases s) simp_all
next
  case (Cons c cs)
  have "like_match (CHR ''%'' # s @ ''%'') (c # cs)
          = (like_match (s @ ''%'') (c # cs) \<or> like_match (CHR ''%'' # s @ ''%'') cs)"
    by simp
  with Cons show ?case using like_match_plain_prefix [OF assms, of "c # cs"] by simp
qed

lemma lower_char_letter:
  "lower_char c = c \<or> lower_char c \<in> set ''abcdefghijklmnopqrstuvwxyz''"
proof (cases "map_of (zip ''ABCDEFGHIJKLMNOPQRSTUVWXYZ'' ''abcdefghijklmnopqrstuvwxyz'') c")
  case None
  then show ?thesis by (simp add: lower_char_def)
next
  case (Some l)
  then have "(c, l) \<in> set (zip ''ABCDEFGHIJKLMNOPQRSTUVWXYZ'' ''abcdefghijklmnopqrstuvwxyz'')"
    by (rule map_of_SomeD)
  then have "l \<in> set ''abcdefghijklmnopqrstuvwxyz''" by (rule set_zip_rightD)
  with Some show ?thesis by (simp add: lower_char_def)
qed

lemma lower_char_wildcard:
  "w \<in> {CHR ''%'', CHR ''_'', CHR 0x5C} \<Longrightarrow> lower_char c = w \<Longrightarrow> c = w"
  using lower_char_letter [of c] by auto

lemma toLowerCase_plain:
  assumes "CHR ''%'' \<notin> set s" "CHR ''_'' \<notin> set s" "CHR 0x5C \<notin> set s"
  shows "CHR ''%'' \<notin> set (toLowerCase s) \<and> CHR ''_'' \<notin> set (toLowerCase s) \<and>
         CHR 0x5C \<notin> set (toLowerCase s)"
proof -
  have "w \<notin> set (toLowerCase s)"
    if w: "w \<in> {CHR ''%'', CHR ''_'', CHR 0x5C}" and n: "w \<notin> set s" for w
  proof
    assume "w \<in> set (toLowerCase s)"
    then obtain c where c: "c \<in> set s" "lower_char c = w"
      by (auto simp: toLowerCase_def)
    from lower_char_wildcard [OF w c(2)] c(1) n show False by simp
  qed
  with assms show ?thesis by simp
qed

lemma search_condition_plain:
  assumes "CHR ''%'' \<notin> set search" "CHR ''_'' \<notin> set search" "CHR 0x5C \<notin> set search"
  shows "search_condition search msg = search_hit search msg"
proof -
  have l: "toLowerCase (''%'' @ search @ ''%'') = ''%'' @ toLowerCase search @ ''%''"
    by (simp add: toLowerCase_def lower_char_def)
  from toLowerCase_plain [OF assms] like_match_includes [of "toLowerCase search"]
  have "like_match (''%'' @ toLowerCase search @ ''%'') t = js_includes t (toLowerCase search)" for t
    by blast
  then show ?thesis
    unfolding search_condition_def search_hit_def ilike_def l Let_def by simp
qed

text \<open>
  On the same messages, with non-negative limit and offset and a search text free of
  the pattern characters, the two implementations of \<open>getMessages\<close> give the same
  answer.
\<close>

lemma getMessages_agree:
  assumes "Map_values (tbl_discordMessages db) = Map_values (discordMessages st)"
    and "opt_limit options = Some limit" "opt_offset options = Some offset" "0 \<le> limit" "0 \<le> offset"
    and "truthy (opt_search options) \<Longrightarrow>
           CHR ''%'' \<notin> set (the (opt_search options)) \<and> CHR ''_'' \<notin> set (the (opt_search options)) \<and>
           CHR 0x5C \<notin> set (the (opt_search options))"
  shows "DatabaseStorage_getMessages options db = MemStorage_getMessages options st"
proof -
  have c: "DatabaseStorage_conditions options =
      (\<lambda>msg.
          (if truthy (opt_serverId options) then msg_server_id msg = the (opt_serverId options) else True) \<and>
          (if truthy (opt_channelId options) then msg_channel_id msg = the (opt_channelId options) else True) \<and>
          (if truthy (opt_search options) then search_hit (the (opt_search options)) msg else True))"
    using assms(6) by (auto simp: DatabaseStorage_conditions_def search_condition_plain fun_eq_iff)
  show ?thesis
    unfolding DatabaseStorage_getMessages_page [OF assms(2-5)] MemStorage_getMessages_page [OF assms(2-5)]
      MemStorage_filtered_conjunction c assms(1)
    by (simp add: sort_desc_def)
qed

text \<open>
  Claim C4: \<open>search\<close> matches as a substring of the content or of the author's name,
  without regard to case. The in-memory implementation tests \<open>includes\<close>. The database
  implementation passes \<open>'%' + search + '%'\<close> to \<open>ILIKE\<close> as it is, so that \<open>_\<close>, \<open>%\<close> and
  the backslash in the search text act as pattern characters: the search \<open>a_c\<close> finds
  the message with content \<open>abc\<close> by \<open>bob\<close>, which holds \<open>a_c\<close> in neither field, and which
  the in-memory implementation does not return.
\<close>

theorem DatabaseStorage_search_wildcard:
  "DatabaseStorage_getMessages search_a_c (snd (DatabaseStorage_createMessage msg_abc DatabaseStorage_new))
     = Inr ([msg_abc], 1) \<and>
   MemStorage_getMessages search_a_c (snd (MemStorage_createMessage msg_abc MemStorage_new))
     = Inr ([], 0) \<and>
   \<not> js_includes (toLowerCase (msg_content msg_abc)) (toLowerCase ''a_c'') \<and>
   \<not> js_includes (toLowerCase (msg_author_username msg_abc)) (toLowerCase ''a_c'')"
  by (simp add: DatabaseStorage_getMessages_def MemStorage_getMessages_def search_a_c_def
      DatabaseStorage_createMessage_def MemStorage_createMessage_def DatabaseStorage_getMessage_def
      DatabaseStorage_new_def MemStorage_new_def updateMessageCount_def Let_def
      DatabaseStorage_conditions_def MemStorage_filtered_def truthy_def search_condition_def
      search_hit_def ilike_def toLowerCase_def lower_char_def Map_values_def sort_desc_def
      sql_limit_offset_def js_slice_def slice_index_def msg_abc_def msg_original_def
      DAList.update.rep_eq DAList.empty.rep_eq DAList.lookup.rep_eq)

end
